theory Spec2Isabelle
  imports Complex_Main
begin

section \<open>Physics-informed training of a 1D advection-diffusion model (hardbcbase)\<close>

text \<open>
  A shallow embedding of the notebook \<^verbatim>\<open>hardbcbase.ipynb\<close>. Array entries are
  real numbers: the rounding of float32 arithmetic is not modelled. The values a
  Python float comparison can see (infinities and NaN) are modelled where the
  program compares losses. The loss function is modelled with the float32 range:
  the batch times and the arrays the forward model and \<^verbatim>\<open>jax.grad\<close> hand over are
  taken entry by entry into that range (beyond the largest float32 an entry is an
  infinity), and the arithmetic of the time weighting, of the residual and of the
  loss overflows and produces NaN as IEEE 754 says. Overflow inside the forward
  pass and inside \<^verbatim>\<open>jax.grad\<close> is not modelled. Calls into JAX, optax, jaxopt and NumPy are modelled by their
  documented contracts or taken as parameters.
\<close>

subsection \<open>Domain and hyperparameters\<close>

definition xmin :: real where "xmin = 0"
definition xmax :: real where "xmax = 1"
definition tmin :: real where "tmin = 0"
definition tmax :: real where "tmax = 1"

definition hidden_nodes :: nat where "hidden_nodes = 40"
definition hidden_layers :: nat where "hidden_layers = 5"
definition epochs :: nat where "epochs = 20000"
definition epochs_lbfgs :: nat where "epochs_lbfgs = 250"
definition batch_size :: nat where "batch_size = 512"

subsection \<open>Arrays\<close>

text \<open>
  An \<open>N \<times> 1\<close> array is the list of its entries; an \<open>N \<times> k\<close> array is the list of
  its rows. An array without rows carries no column count in this representation
  (every shape \<open>(0, k)\<close> is read as \<open>(0, 0)\<close>), so the shape checks below accept
  any empty batch. The program builds no such array: a batch has 512 rows and the
  layer widths are 2, 40 and 1.
\<close>

type_synonym column = "real list"
type_synonym matrix = "real list list"

text \<open>A row \<open>(x, t)\<close> of an \<open>N \<times> 2\<close> array of coordinates.\<close>

type_synonym point = "real \<times> real"

datatype error = UnpackError | ShapeError

definition ncols :: "matrix \<Rightarrow> nat" where
  "ncols M = (case M of [] \<Rightarrow> 0 | r # _ \<Rightarrow> length r)"

text \<open>Row \<open>r\<close> times the matrix \<open>M\<close>: entry \<open>j\<close> is \<open>\<Sum>i. r[i] * M[i][j]\<close>.\<close>

definition vecmat :: "real list \<Rightarrow> matrix \<Rightarrow> real list" where
  "vecmat r M = map (\<lambda>j. sum_list (map2 (\<lambda>a row. a * row ! j) r M)) [0..<ncols M]"

text \<open>\<^verbatim>\<open>X @ M\<close>: the inner dimensions must agree.\<close>

definition matmul :: "matrix \<Rightarrow> matrix \<Rightarrow> error + matrix" where
  "matmul X M =
     (if (\<forall>row \<in> set M. length row = ncols M) \<and> (\<forall>r \<in> set X. length r = length M)
      then Inr (map (\<lambda>r. vecmat r M) X) else Inl ShapeError)"

text \<open>
  \<^verbatim>\<open>Y + b\<close> for a 2-D array and a 1-D array, with NumPy's broadcasting: the lengths
  agree, or one of them is 1.
\<close>

definition bias_row :: "real list \<Rightarrow> real list \<Rightarrow> real list" where
  "bias_row r b =
     (if length r = length b then map2 (+) r b
      else if length b = 1 then map (\<lambda>v. v + hd b) r
      else map (\<lambda>w. hd r + w) b)"

definition add_bias :: "matrix \<Rightarrow> real list \<Rightarrow> error + matrix" where
  "add_bias Y b =
     (if \<forall>r \<in> set Y. length r = length b \<or> length b = 1 \<or> length r = 1
      then Inr (map (\<lambda>r. bias_row r b) Y) else Inl ShapeError)"

subsection \<open>Forward model\<close>

record layer =
  W :: matrix
  B :: "real list"

text \<open>The loop over the hidden layers: \<^verbatim>\<open>X = tanh(X @ W + B)\<close>.\<close>

fun hidden_pass :: "layer list \<Rightarrow> matrix \<Rightarrow> error + matrix" where
  "hidden_pass [] X = Inr X"
| "hidden_pass (l # ls) X =
     (case matmul X (W l) of
        Inl e \<Rightarrow> Inl e
      | Inr Y \<Rightarrow>
          (case add_bias Y (B l) of
             Inl e \<Rightarrow> Inl e
           | Inr Z \<Rightarrow> hidden_pass ls (map (map tanh) Z)))"

text \<open>
  \<^verbatim>\<open>neural_net\<close>: concatenate the two columns, unpack \<^verbatim>\<open>*hidden, last = params\<close>
  (which fails on an empty list), run the hidden layers, apply the last layer
  without activation.
\<close>

definition neural_net :: "layer list \<Rightarrow> column \<Rightarrow> column \<Rightarrow> error + matrix" where
  "neural_net prms x y =
     (if length x \<noteq> length y then Inl ShapeError
      else let X = map2 (\<lambda>a b. [a, b]) x y in
        if prms = [] then Inl UnpackError
        else let hidden = butlast prms; lst = last prms in
          (case hidden_pass hidden X of
             Inl e \<Rightarrow> Inl e
           | Inr X' \<Rightarrow>
               (case matmul X' (W lst) of
                  Inl e \<Rightarrow> Inl e
                | Inr Y \<Rightarrow> add_bias Y (B lst))))"

text \<open>
  \<^verbatim>\<open>neural_net_with_hard_constraint\<close>: \<^verbatim>\<open>base_nn_output * x + (1.0 - x)\<close>, the column
  \<open>x\<close> broadcast along each row of the network's output.
\<close>

definition neural_net_with_hard_constraint ::
  "layer list \<Rightarrow> column \<Rightarrow> column \<Rightarrow> error + matrix" where
  "neural_net_with_hard_constraint prms x t =
     (case neural_net prms x t of
        Inl e \<Rightarrow> Inl e
      | Inr base_nn_output \<Rightarrow>
          Inr (map2 (\<lambda>row xi. map (\<lambda>b. b * xi + (1 - xi)) row) base_nn_output x))"

text \<open>
  The parameter sets of the data model: at least one layer, every weight matrix
  rectangular with as many columns as its bias has entries, input width 2,
  consecutive widths chained, output width 1.
\<close>

definition layer_ok :: "nat \<Rightarrow> nat \<Rightarrow> layer \<Rightarrow> bool" where
  "layer_ok n_in n_out l =
     (length (W l) = n_in \<and> (\<forall>row \<in> set (W l). length row = n_out) \<and> length (B l) = n_out)"

fun chain_ok :: "nat \<Rightarrow> layer list \<Rightarrow> bool" where
  "chain_ok n [] = (n = 1)"
| "chain_ok n (l # ls) = (0 < n \<and> layer_ok n (length (B l)) l \<and> chain_ok (length (B l)) ls)"

definition wf_params :: "layer list \<Rightarrow> bool" where
  "wf_params prms = (prms \<noteq> [] \<and> chain_ok 2 prms)"

text \<open>The same computation on one row of a well-shaped parameter set.\<close>

definition dense :: "layer \<Rightarrow> real list \<Rightarrow> real list" where
  "dense l r = map2 (+) (vecmat r (W l)) (B l)"

definition base_point :: "layer list \<Rightarrow> real \<Rightarrow> real \<Rightarrow> real" where
  "base_point prms x t =
     hd (dense (last prms) (fold (\<lambda>l r. map tanh (dense l r)) (butlast prms) [x, t]))"

definition u_point :: "layer list \<Rightarrow> real \<Rightarrow> real \<Rightarrow> real" where
  "u_point prms x t = base_point prms x t * x + (1 - x)"

subsection \<open>Differential operator\<close>

text \<open>Results that may be an exception: apply \<open>f\<close> to a returned value.\<close>

definition on_result :: "('a \<Rightarrow> 'b) \<Rightarrow> error + 'a \<Rightarrow> error + 'b" where
  "on_result f r = (case r of Inl e \<Rightarrow> Inl e | Inr v \<Rightarrow> Inr (f v))"

text \<open>The number a scalar function returned (0 stands in where it raised).\<close>

definition value_of :: "error + real \<Rightarrow> real" where
  "value_of r = (case r of Inl e \<Rightarrow> 0 | Inr v \<Rightarrow> v)"

text \<open>\<^verbatim>\<open>jnp.sum\<close> of a 2-D array; of a column it is \<open>sum_list\<close>.\<close>

definition jnp_sum :: "matrix \<Rightarrow> real" where
  "jnp_sum M = sum_list (map sum_list M)"

text \<open>
  \<^verbatim>\<open>jax.grad(f, 0)(x, t)\<close> and \<^verbatim>\<open>jax.grad(f, 1)(x, t)\<close> for a scalar function of two
  columns, by JAX's contract: the call raises what \<open>f\<close> raises; otherwise entry
  \<open>j\<close> of the result is the derivative of \<open>f\<close> with respect to entry \<open>j\<close> of the
  chosen argument, the other entries held fixed.
\<close>

definition jax_grad0 :: "(column \<Rightarrow> column \<Rightarrow> error + real) \<Rightarrow> column \<Rightarrow> column \<Rightarrow> error + column" where
  "jax_grad0 f x t =
     (case f x t of
        Inl e \<Rightarrow> Inl e
      | Inr _ \<Rightarrow>
          Inr (map (\<lambda>j. THE D. ((\<lambda>h. value_of (f (x[j := h]) t)) has_real_derivative D) (at (x ! j)))
                 [0..<length x]))"

definition jax_grad1 :: "(column \<Rightarrow> column \<Rightarrow> error + real) \<Rightarrow> column \<Rightarrow> column \<Rightarrow> error + column" where
  "jax_grad1 f x t =
     (case f x t of
        Inl e \<Rightarrow> Inl e
      | Inr _ \<Rightarrow>
          Inr (map (\<lambda>j. THE D. ((\<lambda>h. value_of (f x (t[j := h]))) has_real_derivative D) (at (t ! j)))
                 [0..<length t]))"

text \<open>The partial derivatives of a function of one point \<open>(x, t)\<close>.\<close>

definition partial_x :: "(real \<Rightarrow> real \<Rightarrow> real) \<Rightarrow> real \<Rightarrow> real \<Rightarrow> real" where
  "partial_x f x t = (THE D. ((\<lambda>h. f h t) has_real_derivative D) (at x))"

definition partial_t :: "(real \<Rightarrow> real \<Rightarrow> real) \<Rightarrow> real \<Rightarrow> real \<Rightarrow> real" where
  "partial_t f x t = (THE D. ((\<lambda>h. f x h) has_real_derivative D) (at t))"

subsection \<open>Residual assembler\<close>

text \<open>
  The initial-time points \<^verbatim>\<open>t0 = jnp.stack([xb, jnp.ones(N_b)*tmin], 1)\<close>, for the
  sampled abscissae \<open>xb\<close> (\<open>N_b\<close> is their number).
\<close>

definition t0 :: "real list \<Rightarrow> point list" where
  "t0 xb = zip xb (map (\<lambda>one. one * tmin) (replicate (length xb) 1))"

text \<open>
  \<^verbatim>\<open>pde_residual_2d_darcy(x, t, u)\<close>; the global \<^verbatim>\<open>t0\<close> is its first argument here.
  The initial-condition residual is evaluated first, then \<^verbatim>\<open>u_t\<close>, \<^verbatim>\<open>u_x\<close>, \<^verbatim>\<open>u_xx\<close>.
\<close>

definition pde_residual_2d_darcy ::
  "point list \<Rightarrow> column \<Rightarrow> column \<Rightarrow> (column \<Rightarrow> column \<Rightarrow> error + matrix) \<Rightarrow>
   error + column \<times> column" where
  "pde_residual_2d_darcy t0_pts x t u =
     (let u_x = (\<lambda>x t. jax_grad0 (\<lambda>x t. on_result jnp_sum (u x t)) x t);
          u_xx = (\<lambda>x t. jax_grad0 (\<lambda>x t. on_result sum_list (u_x x t)) x t);
          u_t = (\<lambda>x t. jax_grad1 (\<lambda>x t. on_result jnp_sum (u x t)) x t)
      in case u (map fst t0_pts) (map snd t0_pts) of
           Inl e \<Rightarrow> Inl e
         | Inr u0 \<Rightarrow>
             let ic1 = map (\<lambda>v. v - 0) (concat u0) in
             (case u_t x t of
                Inl e \<Rightarrow> Inl e
              | Inr ut \<Rightarrow>
                  (case u_x x t of
                     Inl e \<Rightarrow> Inl e
                   | Inr ux \<Rightarrow>
                       (case u_xx x t of
                          Inl e \<Rightarrow> Inl e
                        | Inr uxx \<Rightarrow>
                            Inr (map (\<lambda>(a, b, c). a - 1/10 * (- b + c)) (zip ut (zip ux uxx)),
                                 ic1)))))"

text \<open>
  A model function \<open>u\<close> on batches that evaluates every row on its own point, with
  the one-point function \<open>g\<close>.
\<close>

definition pointwise :: "(column \<Rightarrow> column \<Rightarrow> error + matrix) \<Rightarrow> (real \<Rightarrow> real \<Rightarrow> real) \<Rightarrow> bool" where
  "pointwise u g = (\<forall>x t. length x = length t \<longrightarrow> u x t = Inr (map2 (\<lambda>a b. [g a b]) x t))"

text \<open>The residual of the equation at one point, from the partial derivatives of \<open>u\<close>.\<close>

definition residual_point :: "(real \<Rightarrow> real \<Rightarrow> real) \<Rightarrow> real \<Rightarrow> real \<Rightarrow> real" where
  "residual_point u x t =
     partial_t u x t - 1/10 * (- partial_x u x t + partial_x (partial_x u) x t)"

text \<open>
  Functions of one variable with a derivative everywhere whose derivative again has
  a derivative everywhere, and rows of such functions.
\<close>

definition twice_diff :: "(real \<Rightarrow> real) \<Rightarrow> bool" where
  "twice_diff a = (\<exists>a' a''. (\<forall>h. (a has_real_derivative a' h) (at h)) \<and>
                            (\<forall>h. (a' has_real_derivative a'' h) (at h)))"

definition smooth_row :: "nat \<Rightarrow> (real \<Rightarrow> real list) \<Rightarrow> bool" where
  "smooth_row n r = ((\<forall>h. length (r h) = n) \<and> (\<forall>i < n. twice_diff (\<lambda>h. r h ! i)))"

subsection \<open>Parameter initialisation\<close>

text \<open>
  \<^verbatim>\<open>init_params(layers)\<close>. \<open>split\<close> is \<^verbatim>\<open>jax.random.split\<close>, \<open>key0\<close> is
  \<^verbatim>\<open>jax.random.PRNGKey(0)\<close>, and \<open>uniform2\<close>, \<open>uniform1\<close> are \<^verbatim>\<open>jax.random.uniform\<close>
  for a 2-D and a 1-D shape. The weights and the bias of a layer are drawn with the
  same key. On an empty list the number of keys asked for is \<open>-1\<close>, which the
  library refuses.
\<close>

definition init_params ::
  "('k \<Rightarrow> nat \<Rightarrow> 'k list) \<Rightarrow> ('k \<Rightarrow> nat \<Rightarrow> nat \<Rightarrow> matrix) \<Rightarrow> ('k \<Rightarrow> nat \<Rightarrow> real list) \<Rightarrow>
   'k \<Rightarrow> nat list \<Rightarrow> error + layer list" where
  "init_params split uniform2 uniform1 key0 layers =
     (if layers = [] then Inl ShapeError
      else let keys = split key0 (length layers - 1) in
        Inr (map (\<lambda>(key, n_in, n_out).
                   let lb = - (1 / sqrt (real n_in)); ub = 1 / sqrt (real n_in);
                       Wm = map (map (\<lambda>u. lb + (ub - lb) * u)) (uniform2 key n_in n_out);
                       Bv = uniform1 key n_out
                   in \<lparr>W = Wm, B = Bv\<rparr>)
                 (zip keys (zip (butlast layers) (tl layers)))))"

text \<open>
  The library's contract: \<open>split\<close> returns as many keys as asked for, and \<open>uniform\<close>
  returns an array of the asked shape with entries in \<open>[0, 1)\<close>.
\<close>

definition split_ok :: "('k \<Rightarrow> nat \<Rightarrow> 'k list) \<Rightarrow> bool" where
  "split_ok split = (\<forall>key n. length (split key n) = n)"

definition uniform_ok :: "('k \<Rightarrow> nat \<Rightarrow> nat \<Rightarrow> matrix) \<Rightarrow> ('k \<Rightarrow> nat \<Rightarrow> real list) \<Rightarrow> bool" where
  "uniform_ok uniform2 uniform1 =
     (\<forall>key n m.
        length (uniform2 key n m) = n \<and>
        (\<forall>row \<in> set (uniform2 key n m). length row = m \<and> (\<forall>u \<in> set row. 0 \<le> u \<and> u < 1)) \<and>
        length (uniform1 key m) = m \<and>
        (\<forall>u \<in> set (uniform1 key m). 0 \<le> u \<and> u < 1))"

text \<open>The sizes the program passes: \<^verbatim>\<open>[2] + [hidden_nodes] * hidden_layers + [1]\<close>.\<close>

definition layer_sizes :: "nat list" where
  "layer_sizes = [2] @ replicate hidden_layers hidden_nodes @ [1]"

subsection \<open>Time weighting inside \<^verbatim>\<open>loss_fun\<close>\<close>

text \<open>
  The two summands of \<^verbatim>\<open>lambda_t\<close> before their masks are applied, and the masked
  sum itself. A boolean mask multiplies as 0 or 1.
\<close>

definition lambda_early :: "real \<Rightarrow> real" where
  "lambda_early t_c = 200 * (1 - (t_c - tmin) / (1/10))\<^sup>2 + 1"

definition lambda_late :: "real \<Rightarrow> real" where
  "lambda_late t_c = 20 * (1 - (t_c - tmin) / (tmax - tmin))\<^sup>2 + 1"

definition lambda_t :: "real \<Rightarrow> real" where
  "lambda_t t_c =
     lambda_early t_c * of_bool (t_c \<le> 1/10) + lambda_late t_c * of_bool (t_c > 1/10)"


subsection \<open>Loss values as Python floats under comparison\<close>

datatype pyfloat = NaN | NegInf | Finite real | PosInf

text \<open>\<^verbatim>\<open>a < b\<close> on floats: false whenever a NaN is involved.\<close>

fun fless :: "pyfloat \<Rightarrow> pyfloat \<Rightarrow> bool" where
  "fless NaN _ = False"
| "fless _ NaN = False"
| "fless NegInf NegInf = False"
| "fless NegInf _ = True"
| "fless (Finite a) (Finite b) = (a < b)"
| "fless (Finite a) PosInf = True"
| "fless (Finite a) NegInf = False"
| "fless PosInf _ = False"

definition fle :: "pyfloat \<Rightarrow> pyfloat \<Rightarrow> bool" where
  "fle a b = (a = b \<or> fless a b)"

text \<open>
  Float arithmetic on the special values, as IEEE 754 defines it. On two finite
  values the exact result stands for the rounded one, and the two signed zeros are
  not told apart.
\<close>

fun fneg :: "pyfloat \<Rightarrow> pyfloat" where
  "fneg NaN = NaN"
| "fneg NegInf = PosInf"
| "fneg (Finite a) = Finite (- a)"
| "fneg PosInf = NegInf"

fun fadd :: "pyfloat \<Rightarrow> pyfloat \<Rightarrow> pyfloat" where
  "fadd NaN _ = NaN"
| "fadd _ NaN = NaN"
| "fadd (Finite a) (Finite b) = Finite (a + b)"
| "fadd (Finite a) y = y"
| "fadd x (Finite b) = x"
| "fadd PosInf PosInf = PosInf"
| "fadd NegInf NegInf = NegInf"
| "fadd PosInf NegInf = NaN"
| "fadd NegInf PosInf = NaN"

fun fmul :: "pyfloat \<Rightarrow> pyfloat \<Rightarrow> pyfloat" where
  "fmul NaN _ = NaN"
| "fmul _ NaN = NaN"
| "fmul (Finite a) (Finite b) = Finite (a * b)"
| "fmul (Finite a) PosInf = (if a = 0 then NaN else if 0 < a then PosInf else NegInf)"
| "fmul (Finite a) NegInf = (if a = 0 then NaN else if 0 < a then NegInf else PosInf)"
| "fmul PosInf (Finite b) = (if b = 0 then NaN else if 0 < b then PosInf else NegInf)"
| "fmul NegInf (Finite b) = (if b = 0 then NaN else if 0 < b then NegInf else PosInf)"
| "fmul PosInf PosInf = PosInf"
| "fmul NegInf NegInf = PosInf"
| "fmul PosInf NegInf = NegInf"
| "fmul NegInf PosInf = NegInf"

definition fsub :: "pyfloat \<Rightarrow> pyfloat \<Rightarrow> pyfloat" where
  "fsub a b = fadd a (fneg b)"

text \<open>
  The expression \<^verbatim>\<open>base_nn_output * x + (1.0 - x)\<close> of
  \<^verbatim>\<open>neural_net_with_hard_constraint\<close> on one float entry.
\<close>

definition u_constrained_float :: "pyfloat \<Rightarrow> pyfloat \<Rightarrow> pyfloat" where
  "u_constrained_float base_nn_output x = fadd (fmul base_nn_output x) (fsub (Finite 1) x)"

subsection \<open>The float32 range\<close>

text \<open>The largest float32, \<open>(2 - 2\<^sup>-\<^sup>2\<^sup>3) * 2\<^sup>1\<^sup>2\<^sup>7\<close>.\<close>

definition flt_max :: real where
  "flt_max = (2 - 1 / 2 ^ 23) * 2 ^ 127"

text \<open>A real result as a float32: beyond the range it is an infinity.\<close>

definition f32 :: "real \<Rightarrow> pyfloat" where
  "f32 v = (if flt_max < v then PosInf else if v < - flt_max then NegInf else Finite v)"

definition to_range :: "pyfloat \<Rightarrow> pyfloat" where
  "to_range p = (case p of Finite v \<Rightarrow> f32 v | _ \<Rightarrow> p)"

text \<open>The float32 operations: the IEEE result, taken into the range.\<close>

definition fadd32 :: "pyfloat \<Rightarrow> pyfloat \<Rightarrow> pyfloat" where
  "fadd32 a b = to_range (fadd a b)"

definition fsub32 :: "pyfloat \<Rightarrow> pyfloat \<Rightarrow> pyfloat" where
  "fsub32 a b = to_range (fsub a b)"

definition fmul32 :: "pyfloat \<Rightarrow> pyfloat \<Rightarrow> pyfloat" where
  "fmul32 a b = to_range (fmul a b)"

text \<open>
  Float division. The sign of a zero is not modelled: a quotient by zero takes the
  sign of its numerator.
\<close>

fun fdiv :: "pyfloat \<Rightarrow> pyfloat \<Rightarrow> pyfloat" where
  "fdiv NaN _ = NaN"
| "fdiv _ NaN = NaN"
| "fdiv (Finite a) (Finite b) =
     (if b = 0 then (if a = 0 then NaN else if 0 < a then PosInf else NegInf)
      else Finite (a / b))"
| "fdiv (Finite a) PosInf = Finite 0"
| "fdiv (Finite a) NegInf = Finite 0"
| "fdiv PosInf (Finite b) = (if 0 \<le> b then PosInf else NegInf)"
| "fdiv NegInf (Finite b) = (if 0 \<le> b then NegInf else PosInf)"
| "fdiv PosInf PosInf = NaN"
| "fdiv PosInf NegInf = NaN"
| "fdiv NegInf PosInf = NaN"
| "fdiv NegInf NegInf = NaN"

definition fdiv32 :: "pyfloat \<Rightarrow> pyfloat \<Rightarrow> pyfloat" where
  "fdiv32 a b = to_range (fdiv a b)"

text \<open>\<^verbatim>\<open>v**2\<close> on float32.\<close>

definition fsquare :: "pyfloat \<Rightarrow> pyfloat" where
  "fsquare v = fmul32 v v"

subsection \<open>Residual and loss assembler on float32\<close>

text \<open>
  \<^verbatim>\<open>pde_residual_2d_darcy\<close> as \<^verbatim>\<open>loss_fun\<close> runs it: the same function as above, with
  the columns \<^verbatim>\<open>u_t(x, t)\<close>, \<^verbatim>\<open>u_x(x, t)\<close>, \<^verbatim>\<open>u_xx(x, t)\<close> and the model output at
  \<^verbatim>\<open>t0\<close> taken into the float32 range and the arithmetic of its last lines done on
  float32.
\<close>

definition pde_residual_2d_darcy_f32 ::
  "point list \<Rightarrow> column \<Rightarrow> column \<Rightarrow> (column \<Rightarrow> column \<Rightarrow> error + matrix) \<Rightarrow>
   error + pyfloat list \<times> pyfloat list" where
  "pde_residual_2d_darcy_f32 t0_pts x t u =
     (let u_x = (\<lambda>x t. jax_grad0 (\<lambda>x t. on_result jnp_sum (u x t)) x t);
          u_xx = (\<lambda>x t. jax_grad0 (\<lambda>x t. on_result sum_list (u_x x t)) x t);
          u_t = (\<lambda>x t. jax_grad1 (\<lambda>x t. on_result jnp_sum (u x t)) x t)
      in case u (map fst t0_pts) (map snd t0_pts) of
           Inl e \<Rightarrow> Inl e
         | Inr u0 \<Rightarrow>
             let ic1 = map (\<lambda>v. fsub32 (f32 v) (Finite 0)) (concat u0) in
             (case u_t x t of
                Inl e \<Rightarrow> Inl e
              | Inr ut \<Rightarrow>
                  (case u_x x t of
                     Inl e \<Rightarrow> Inl e
                   | Inr ux \<Rightarrow>
                       (case u_xx x t of
                          Inl e \<Rightarrow> Inl e
                        | Inr uxx \<Rightarrow>
                            Inr (map (\<lambda>(a, b, c).
                                       fsub32 (f32 a)
                                         (fmul32 (Finite (1/10)) (fadd32 (fneg (f32 b)) (f32 c))))
                                     (zip ut (zip ux uxx)),
                                 ic1)))))"

text \<open>The float32 residual at one point, from the partial derivatives of \<open>u\<close>.\<close>

definition residual_point_f32 :: "(real \<Rightarrow> real \<Rightarrow> real) \<Rightarrow> real \<Rightarrow> real \<Rightarrow> pyfloat" where
  "residual_point_f32 u x t =
     fsub32 (f32 (partial_t u x t))
       (fmul32 (Finite (1/10)) (fadd32 (fneg (f32 (partial_x u x t))) (f32 (partial_x (partial_x u) x t))))"

text \<open>
  \<^verbatim>\<open>lambda_t\<close> as \<^verbatim>\<open>loss_fun\<close> computes it on one float32 entry \<open>t_c\<close> of the batch:
  both summands are computed, each is multiplied by its mask (a boolean as 0 or
  1), and the products are added. A summand that overflowed and is masked out
  contributes \<open>inf * 0\<close>, which is NaN.
\<close>

definition lambda_t_f32 :: "real \<Rightarrow> pyfloat" where
  "lambda_t_f32 t =
     (let t_c = f32 t in
      fadd32
        (fmul32
           (fadd32 (fmul32 (Finite 200)
                      (fsquare (fsub32 (Finite 1)
                                  (fdiv32 (fsub32 t_c (Finite tmin)) (Finite (1/10))))))
                   (Finite 1))
           (Finite (of_bool (fle t_c (Finite (1/10))))))
        (fmul32
           (fadd32 (fmul32 (Finite 20)
                      (fsquare (fsub32 (Finite 1)
                                  (fdiv32 (fsub32 t_c (Finite tmin)) (Finite (tmax - tmin))))))
                   (Finite 1))
           (Finite (of_bool (fless (Finite (1/10)) t_c)))))"

text \<open>
  \<^verbatim>\<open>jnp.mean\<close> of a column: the sum of the entries, accumulated on float32, divided
  by their number. The mean of an empty column is NaN.
\<close>

definition jnp_mean :: "pyfloat list \<Rightarrow> pyfloat" where
  "jnp_mean xs =
     (if xs = [] then NaN
      else case foldl fadd32 (Finite 0) xs of
             Finite s \<Rightarrow> Finite (s / real (length xs))
           | p \<Rightarrow> p)"

definition loss_fun :: "point list \<Rightarrow> layer list \<Rightarrow> point list \<Rightarrow> error + pyfloat" where
  "loss_fun t0_pts prms colloc =
     (let x_c = map fst colloc; t_c = map snd colloc;
          lam = map lambda_t_f32 t_c;
          u_nn = (\<lambda>x t. neural_net_with_hard_constraint prms x t)
      in case pde_residual_2d_darcy_f32 t0_pts x_c t_c u_nn of
           Inl e \<Rightarrow> Inl e
         | Inr (pde_residual, ic1) \<Rightarrow>
             let pde_loss = jnp_mean (map2 (\<lambda>l r. fmul32 l (fsquare r)) lam pde_residual);
                 ic_loss = fmul32 (Finite 100) (jnp_mean (map fsquare ic1));
                 loss = fadd32 pde_loss ic_loss
             in Inr loss)"

text \<open>Floats that are not negative: a number that is at least 0, or plus infinity.\<close>

fun nonneg_f :: "pyfloat \<Rightarrow> bool" where
  "nonneg_f (Finite v) = (0 \<le> v)"
| "nonneg_f PosInf = True"
| "nonneg_f NegInf = False"
| "nonneg_f NaN = False"

subsection \<open>Training loop and best-model tracking\<close>

text \<open>
  The variables the two loops read and write. \<open>np_random\<close> is the state of NumPy's
  global generator, which \<^verbatim>\<open>np.random.choice\<close> reads and advances.
\<close>

record ('p, 'o, 'r) train_state =
  params :: 'p
  opt_state :: 'o
  best_params :: 'p
  best_loss :: pyfloat
  best_epoch :: nat
  all_losses :: "pyfloat list"
  all_epochs :: "nat list"
  np_random :: 'r

text \<open>
  \<^verbatim>\<open>update\<close>: one Adam step. \<open>value_and_grad\<close> is \<^verbatim>\<open>jax.value_and_grad(loss_fun)\<close>,
  \<open>optimizer_update\<close> is \<^verbatim>\<open>optimizer.update\<close> and \<open>apply_updates\<close> is
  \<^verbatim>\<open>optax.apply_updates\<close>. The returned value is the loss at the parameters
  before the step.
\<close>

definition update ::
  "('p \<Rightarrow> 'b \<Rightarrow> pyfloat \<times> 'g) \<Rightarrow> ('g \<Rightarrow> 'o \<Rightarrow> 'u \<times> 'o) \<Rightarrow> ('p \<Rightarrow> 'u \<Rightarrow> 'p) \<Rightarrow>
   'o \<Rightarrow> 'p \<Rightarrow> 'b \<Rightarrow> 'o \<times> 'p \<times> pyfloat" where
  "update value_and_grad optimizer_update apply_updates opt_st prms colloc =
     (let (val, grads) = value_and_grad prms colloc;
          (updates, opt_st') = optimizer_update grads opt_st;
          prms' = apply_updates prms updates
      in (opt_st', prms', val))"

text \<open>The initial values of the tracking variables, before the first loop.\<close>

definition init_state :: "'p \<Rightarrow> 'o \<Rightarrow> 'r \<Rightarrow> ('p, 'o, 'r) train_state" where
  "init_state prms opt_st rng =
     \<lparr>params = prms, opt_state = opt_st, best_params = prms, best_loss = PosInf,
      best_epoch = 0, all_losses = [], all_epochs = [], np_random = rng\<rparr>"

text \<open>
  One iteration of the first loop. \<open>choice\<close> is \<^verbatim>\<open>np.random.choice(n, size=k)\<close> on
  the global generator: it returns the drawn indices, each below \<open>n\<close>, and the
  advanced state. The collocation array is not empty (2200 points).
\<close>

definition phaseA_step ::
  "('o \<Rightarrow> 'p \<Rightarrow> point list \<Rightarrow> 'o \<times> 'p \<times> pyfloat) \<Rightarrow> ('r \<Rightarrow> nat \<Rightarrow> nat \<Rightarrow> nat list \<times> 'r) \<Rightarrow>
   point list \<Rightarrow> ('p, 'o, 'r) train_state \<Rightarrow> nat \<Rightarrow> ('p, 'o, 'r) train_state" where
  "phaseA_step upd choice colloc s epoch =
     (let (idx, rng') = choice (np_random s) (length colloc) batch_size;
          colloc_batched = map (\<lambda>i. colloc ! i) idx;
          (opt_st', prms', current_loss) = upd (opt_state s) (params s) colloc_batched;
          s1 = s\<lparr>params := prms', opt_state := opt_st', np_random := rng',
                all_losses := all_losses s @ [current_loss],
                all_epochs := all_epochs s @ [epoch]\<rparr>
      in if fless current_loss (best_loss s1)
         then s1\<lparr>best_loss := current_loss, best_params := prms', best_epoch := epoch\<rparr>
         else s1)"

text \<open>
  One iteration of the L-BFGS loop; \<open>n_a\<close> is the first loop's \<^verbatim>\<open>epochs\<close>, which
  offsets the recorded epoch index.
\<close>

definition phaseB_step ::
  "('p \<Rightarrow> point list \<Rightarrow> 'p) \<Rightarrow> ('p \<Rightarrow> point list \<Rightarrow> pyfloat) \<Rightarrow>
   ('r \<Rightarrow> nat \<Rightarrow> nat \<Rightarrow> nat list \<times> 'r) \<Rightarrow> point list \<Rightarrow> nat \<Rightarrow>
   ('p, 'o, 'r) train_state \<Rightarrow> nat \<Rightarrow> ('p, 'o, 'r) train_state" where
  "phaseB_step upd_lbfgs lossf choice colloc n_a s epoch =
     (let (idx, rng') = choice (np_random s) (length colloc) batch_size;
          colloc_batched = map (\<lambda>i. colloc ! i) idx;
          prms' = upd_lbfgs (params s) colloc_batched;
          current_loss = lossf prms' colloc_batched;
          s1 = s\<lparr>params := prms', np_random := rng',
                all_losses := all_losses s @ [current_loss],
                all_epochs := all_epochs s @ [epoch + n_a]\<rparr>
      in if fless current_loss (best_loss s1)
         then s1\<lparr>best_loss := current_loss, best_params := prms', best_epoch := epoch + n_a\<rparr>
         else s1)"

text \<open>\<^verbatim>\<open>for epoch in range(n_a+1)\<close> followed by \<^verbatim>\<open>for epoch in range(n_b+1)\<close>.\<close>

definition phaseA ::
  "('o \<Rightarrow> 'p \<Rightarrow> point list \<Rightarrow> 'o \<times> 'p \<times> pyfloat) \<Rightarrow> ('r \<Rightarrow> nat \<Rightarrow> nat \<Rightarrow> nat list \<times> 'r) \<Rightarrow>
   point list \<Rightarrow> nat \<Rightarrow> ('p, 'o, 'r) train_state \<Rightarrow> ('p, 'o, 'r) train_state" where
  "phaseA upd choice colloc n_a s =
     fold (\<lambda>epoch s. phaseA_step upd choice colloc s epoch) [0..<n_a + 1] s"

definition phaseB ::
  "('p \<Rightarrow> point list \<Rightarrow> 'p) \<Rightarrow> ('p \<Rightarrow> point list \<Rightarrow> pyfloat) \<Rightarrow>
   ('r \<Rightarrow> nat \<Rightarrow> nat \<Rightarrow> nat list \<times> 'r) \<Rightarrow> point list \<Rightarrow> nat \<Rightarrow> nat \<Rightarrow>
   ('p, 'o, 'r) train_state \<Rightarrow> ('p, 'o, 'r) train_state" where
  "phaseB upd_lbfgs lossf choice colloc n_a n_b s =
     fold (\<lambda>epoch s. phaseB_step upd_lbfgs lossf choice colloc n_a s epoch) [0..<n_b + 1] s"

definition training ::
  "('o \<Rightarrow> 'p \<Rightarrow> point list \<Rightarrow> 'o \<times> 'p \<times> pyfloat) \<Rightarrow> ('p \<Rightarrow> point list \<Rightarrow> 'p) \<Rightarrow>
   ('p \<Rightarrow> point list \<Rightarrow> pyfloat) \<Rightarrow> ('r \<Rightarrow> nat \<Rightarrow> nat \<Rightarrow> nat list \<times> 'r) \<Rightarrow>
   point list \<Rightarrow> nat \<Rightarrow> nat \<Rightarrow> 'p \<Rightarrow> 'o \<Rightarrow> 'r \<Rightarrow> ('p, 'o, 'r) train_state" where
  "training upd upd_lbfgs lossf choice colloc n_a n_b prms opt_st rng =
     phaseB upd_lbfgs lossf choice colloc n_a n_b
       (phaseA upd choice colloc n_a (init_state prms opt_st rng))"

text \<open>
  The states after each iteration, in order: the history that the loops overwrite.
\<close>

fun states_after :: "('s \<Rightarrow> nat \<Rightarrow> 's) \<Rightarrow> 's \<Rightarrow> nat list \<Rightarrow> 's list" where
  "states_after step s [] = []"
| "states_after step s (e # es) = step s e # states_after step (step s e) es"

definition training_history ::
  "('o \<Rightarrow> 'p \<Rightarrow> point list \<Rightarrow> 'o \<times> 'p \<times> pyfloat) \<Rightarrow> ('p \<Rightarrow> point list \<Rightarrow> 'p) \<Rightarrow>
   ('p \<Rightarrow> point list \<Rightarrow> pyfloat) \<Rightarrow> ('r \<Rightarrow> nat \<Rightarrow> nat \<Rightarrow> nat list \<times> 'r) \<Rightarrow>
   point list \<Rightarrow> nat \<Rightarrow> nat \<Rightarrow> 'p \<Rightarrow> 'o \<Rightarrow> 'r \<Rightarrow> ('p, 'o, 'r) train_state list" where
  "training_history upd upd_lbfgs lossf choice colloc n_a n_b prms opt_st rng =
     (let s0 = init_state prms opt_st rng;
          hist_a = states_after (phaseA_step upd choice colloc) s0 [0..<n_a + 1];
          s_a = phaseA upd choice colloc n_a s0;
          hist_b = states_after (phaseB_step upd_lbfgs lossf choice colloc n_a) s_a [0..<n_b + 1]
      in s0 # hist_a @ hist_b)"

text \<open>The best-seen triple the loops maintain in three variables.\<close>

definition snapshot :: "('p, 'o, 'r) train_state \<Rightarrow> nat \<times> pyfloat \<times> 'p" where
  "snapshot s = (best_epoch s, best_loss s, best_params s)"

definition nonincreasing :: "pyfloat list \<Rightarrow> bool" where
  "nonincreasing xs = (\<forall>j < length xs. \<forall>i \<le> j. fle (xs ! j) (xs ! i))"


section \<open>Properties\<close>

subsection \<open>The forward model and its boundary value\<close>

lemma matmul_length: "matmul X M = Inr Y \<Longrightarrow> length Y = length X"
  by (auto simp: matmul_def split: if_splits)

lemma add_bias_length: "add_bias Y b = Inr Z \<Longrightarrow> length Z = length Y"
  by (auto simp: add_bias_def split: if_splits)

lemma hidden_pass_length: "hidden_pass ls X = Inr Y \<Longrightarrow> length Y = length X"
proof (induction ls arbitrary: X)
  case Nil
  then show ?case by simp
next
  case (Cons l ls)
  then show ?case
    by (fastforce split: sum.splits dest: matmul_length add_bias_length)
qed

lemma neural_net_length: "neural_net prms x y = Inr U \<Longrightarrow> length U = length x"
  by (auto simp: neural_net_def Let_def split: if_splits sum.splits
      dest!: matmul_length add_bias_length hidden_pass_length)

lemma hard_constraint_rows:
  assumes "neural_net_with_hard_constraint prms x t = Inr U"
  shows "length U = length x"
    and "i < length x \<Longrightarrow> x ! i = 0 \<Longrightarrow> v \<in> set (U ! i) \<Longrightarrow> v = 1"
proof -
  from assms obtain base where b: "neural_net prms x t = Inr base"
    and U: "U = map2 (\<lambda>row xi. map (\<lambda>b. b * xi + (1 - xi)) row) base x"
    by (auto simp: neural_net_with_hard_constraint_def split: sum.splits)
  have len: "length base = length x" using b by (rule neural_net_length)
  show "length U = length x" using U len by simp
  show "i < length x \<Longrightarrow> x ! i = 0 \<Longrightarrow> v \<in> set (U ! i) \<Longrightarrow> v = 1"
    using U len by auto
qed

lemma ncols_rect: "M \<noteq> [] \<Longrightarrow> \<forall>row \<in> set M. length row = m \<Longrightarrow> ncols M = m"
  by (cases M) (auto simp: ncols_def)

lemma layer_pass:
  assumes "layer_ok n m l" and "0 < n" and "\<forall>r \<in> set X. length r = n"
  shows "matmul X (W l) = Inr (map (\<lambda>r. vecmat r (W l)) X)"
    and "add_bias (map (\<lambda>r. vecmat r (W l)) X) (B l) = Inr (map (dense l) X)"
    and "\<forall>r \<in> set X. length (dense l r) = m"
proof -
  have ne: "W l \<noteq> []" using assms(1,2) by (auto simp: layer_ok_def)
  have nc: "ncols (W l) = m" using assms(1) ne by (intro ncols_rect) (auto simp: layer_ok_def)
  show "matmul X (W l) = Inr (map (\<lambda>r. vecmat r (W l)) X)"
    using assms nc by (auto simp: matmul_def layer_ok_def)
  have vl: "\<And>r. length (vecmat r (W l)) = m" using nc by (simp add: vecmat_def)
  have bl: "length (B l) = m" using assms(1) by (simp add: layer_ok_def)
  show "add_bias (map (\<lambda>r. vecmat r (W l)) X) (B l) = Inr (map (dense l) X)"
    using vl bl by (simp add: add_bias_def bias_row_def dense_def)
  show "\<forall>r \<in> set X. length (dense l r) = m"
    using vl bl by (simp add: dense_def)
qed

lemma hidden_pass_ok:
  assumes "chain_ok n (ls @ [lst])" and "\<forall>r \<in> set X. length r = n"
  shows "\<exists>m. hidden_pass ls X = Inr (map (fold (\<lambda>l r. map tanh (dense l r)) ls) X) \<and>
             (\<forall>r \<in> set X. length (fold (\<lambda>l r. map tanh (dense l r)) ls r) = m) \<and>
             chain_ok m [lst]"
  using assms
proof (induction ls arbitrary: n X)
  case Nil
  then show ?case by auto
next
  case (Cons l ls)
  let ?m = "length (B l)"
  have lo: "layer_ok n ?m l" and n0: "0 < n" and ch: "chain_ok ?m (ls @ [lst])"
    using Cons.prems(1) by simp_all
  note lp = layer_pass[OF lo n0 Cons.prems(2)]
  let ?X' = "map (map tanh) (map (dense l) X)"
  have w: "\<forall>r \<in> set ?X'. length r = ?m" using lp(3) by simp
  from Cons.IH[OF ch w] obtain m where
    m: "hidden_pass ls ?X' = Inr (map (fold (\<lambda>l r. map tanh (dense l r)) ls) ?X')"
     "\<forall>r \<in> set ?X'. length (fold (\<lambda>l r. map tanh (dense l r)) ls r) = m"
     "chain_ok m [lst]" by blast
  have "hidden_pass (l # ls) X = hidden_pass ls ?X'"
    by (simp add: lp(1,2))
  then show ?case using m by (auto simp: comp_def)
qed

lemma neural_net_wf:
  assumes "wf_params prms" and "length x = length t"
  shows "neural_net prms x t = Inr (map2 (\<lambda>a b. [base_point prms a b]) x t)"
proof -
  let ?hid = "butlast prms" and ?lst = "last prms"
  let ?X = "map2 (\<lambda>a b. [a, b]) x t"
  let ?f = "fold (\<lambda>l r. map tanh (dense l r)) ?hid"
  have ne: "prms \<noteq> []" and ch: "chain_ok 2 (?hid @ [?lst])"
    using assms(1) by (simp_all add: wf_params_def)
  have w2: "\<forall>r \<in> set ?X. length r = 2" by (auto simp: set_zip)
  from hidden_pass_ok[OF ch w2] obtain m where
    m: "hidden_pass ?hid ?X = Inr (map ?f ?X)"
       "\<forall>r \<in> set ?X. length (?f r) = m" "chain_ok m [?lst]" by blast
  have lo: "layer_ok m 1 ?lst" and m0: "0 < m" using m(3) by auto
  have wm: "\<forall>r \<in> set (map ?f ?X). length r = m" using m(2) by simp
  note lp = layer_pass[OF lo m0 wm]
  have one: "\<forall>r \<in> set ?X. dense ?lst (?f r) = [hd (dense ?lst (?f r))]"
  proof
    fix r assume "r \<in> set ?X"
    then have "?f r \<in> set (map ?f ?X)" unfolding set_map by (rule imageI)
    with lp(3) have "length (dense ?lst (?f r)) = 1" by blast
    then show "dense ?lst (?f r) = [hd (dense ?lst (?f r))]"
      by (cases "dense ?lst (?f r)") simp_all
  qed
  have "neural_net prms x t = Inr (map (dense ?lst) (map ?f ?X))"
    using assms(2) ne m(1) lp(1,2) by (simp add: neural_net_def Let_def)
  also have "map (dense ?lst) (map ?f ?X) = map (\<lambda>r. [hd (dense ?lst (?f r))]) ?X"
    using one by simp
  also have "\<dots> = map2 (\<lambda>a b. [base_point prms a b]) x t"
    by (simp add: base_point_def map_zip_map2 comp_def split_def)
  finally show ?thesis .
qed

lemma hard_constraint_wf:
  assumes "wf_params prms" and "length x = length t"
  shows "neural_net_with_hard_constraint prms x t = Inr (map2 (\<lambda>a b. [u_point prms a b]) x t)"
proof -
  have "map2 (\<lambda>row xi. map (\<lambda>b. b * xi + (1 - xi)) row) (map2 (\<lambda>a b. [base_point prms a b]) x t) x
      = map2 (\<lambda>a b. [u_point prms a b]) x t"
    using assms(2) by (intro nth_equalityI) (simp_all add: u_point_def)
  then show ?thesis
    by (simp add: neural_net_with_hard_constraint_def neural_net_wf[OF assms])
qed

text \<open>
  C1. Whenever the forward model returns at all (for any parameter set, of any
  shape that NumPy accepts), every output entry of a batch row with \<open>x = 0\<close> is
  exactly 1, whatever the weights, the biases and \<open>t\<close> are. On a well-shaped
  parameter set and columns of equal length it does return, one entry per row.
  On floats with special values the constraint expression at \<open>x = 0\<close> gives exactly
  1 for every finite network output, and NaN (no value) for an infinite or NaN
  one.
\<close>

theorem hard_constraint_boundary:
  "(neural_net_with_hard_constraint prms x t = Inr U \<longrightarrow>
      length U = length x \<and> (\<forall>i < length x. x ! i = 0 \<longrightarrow> (\<forall>v \<in> set (U ! i). v = 1))) \<and>
   (wf_params prms \<and> length x = length t \<longrightarrow>
      (\<exists>U. neural_net_with_hard_constraint prms x t = Inr U \<and>
           (\<forall>i < length x. x ! i = 0 \<longrightarrow> U ! i = [1]))) \<and>
   u_constrained_float b (Finite 0) = (case b of Finite v \<Rightarrow> Finite 1 | _ \<Rightarrow> NaN)"
proof (intro conjI impI)
  show "u_constrained_float b (Finite 0) = (case b of Finite v \<Rightarrow> Finite 1 | _ \<Rightarrow> NaN)"
    by (cases b) (simp_all add: u_constrained_float_def fsub_def)
next
  assume "neural_net_with_hard_constraint prms x t = Inr U"
  then show "length U = length x" by (rule hard_constraint_rows(1))
next
  assume "neural_net_with_hard_constraint prms x t = Inr U"
  then show "\<forall>i < length x. x ! i = 0 \<longrightarrow> (\<forall>v \<in> set (U ! i). v = 1)"
    using hard_constraint_rows(2) by blast
next
  assume a: "wf_params prms \<and> length x = length t"
  then have "neural_net_with_hard_constraint prms x t = Inr (map2 (\<lambda>a b. [u_point prms a b]) x t)"
    by (simp add: hard_constraint_wf)
  moreover have "\<forall>i < length x. x ! i = 0 \<longrightarrow> map2 (\<lambda>a b. [u_point prms a b]) x t ! i = [1]"
    using a by (simp add: u_point_def)
  ultimately show "\<exists>U. neural_net_with_hard_constraint prms x t = Inr U \<and>
           (\<forall>i < length x. x ! i = 0 \<longrightarrow> U ! i = [1])" by blast
qed

theorem hard_constraint_boundary_witness:
  "wf_params [\<lparr>W = [[1, 2], [0, 1]], B = [0, 1]\<rparr>, \<lparr>W = [[1], [1]], B = [1/2]\<rparr>] \<and>
   length [0::real] = length [1/2::real] \<and>
   neural_net_with_hard_constraint
     [\<lparr>W = [[1, 2], [0, 1]], B = [0, 1]\<rparr>, \<lparr>W = [[1], [1]], B = [1/2]\<rparr>] [0] [1/2] = Inr [[1]] \<and>
   u_constrained_float (Finite 7) (Finite 0) = Finite 1 \<and>
   u_constrained_float PosInf (Finite 0) = NaN"
proof -
  let ?p = "[\<lparr>W = [[1, 2], [0, 1]], B = [0, 1]\<rparr>, \<lparr>W = [[1], [1]], B = [1/2]\<rparr>]"
  have wf: "wf_params ?p" by (simp add: wf_params_def layer_ok_def)
  have "\<exists>U. neural_net_with_hard_constraint ?p [0] [1/2] = Inr U \<and> U ! 0 = [1]"
    using hard_constraint_boundary [where prms = ?p and x = "[0]" and t = "[1/2]"
        and U = "[]" and b = "Finite 7"] wf
    by simp
  then obtain U where U: "neural_net_with_hard_constraint ?p [0] [1/2] = Inr U" "U ! 0 = [1]"
    by blast
  have "length U = 1"
    using hard_constraint_boundary [where prms = ?p and x = "[0]" and t = "[1/2]"
        and U = U and b = PosInf] U(1)
    by simp
  with U(2) have "U = [[1]]" by (cases U) simp_all
  moreover have "u_constrained_float (Finite 7) (Finite 0) = Finite 1"
    using hard_constraint_boundary [where prms = ?p and x = "[0]" and t = "[1/2]"
        and U = U and b = "Finite 7"]
    by simp
  moreover have "u_constrained_float PosInf (Finite 0) = NaN"
    using hard_constraint_boundary [where prms = ?p and x = "[0]" and t = "[1/2]"
        and U = U and b = PosInf]
    by simp
  ultimately show ?thesis using U(1) wf by simp
qed


subsection \<open>Sum-then-differentiate on a pointwise batch function\<close>

lemma sum_list_upd:
  fixes xs :: "real list"
  shows "j < length xs \<Longrightarrow> sum_list (xs[j := v]) = v + (sum_list xs - xs ! j)"
  by (induction xs arbitrary: j) (auto simp: nth_Cons split: nat.splits)

lemma map2_upd_left:
  "j < length x \<Longrightarrow> length x = length t \<Longrightarrow> map2 g (x[j := h]) t = (map2 g x t)[j := g h (t ! j)]"
  by (intro nth_equalityI) (auto simp: nth_list_update)

lemma map2_upd_right:
  "j < length x \<Longrightarrow> length x = length t \<Longrightarrow> map2 g x (t[j := h]) = (map2 g x t)[j := g (x ! j) h]"
  by (intro nth_equalityI) (auto simp: nth_list_update)

lemma DERIV_add_const_iff:
  fixes g :: "real \<Rightarrow> real"
  shows "((\<lambda>h. g h + c) has_real_derivative D) (at a) \<longleftrightarrow> (g has_real_derivative D) (at a)"
proof
  assume "((\<lambda>h. g h + c) has_real_derivative D) (at a)"
  then have "((\<lambda>h. (g h + c) - c) has_real_derivative D - 0) (at a)"
    by (intro DERIV_diff DERIV_const)
  then show "(g has_real_derivative D) (at a)" by simp
next
  assume "(g has_real_derivative D) (at a)"
  then have "((\<lambda>h. g h + c) has_real_derivative D + 0) (at a)"
    by (intro DERIV_add DERIV_const)
  then show "((\<lambda>h. g h + c) has_real_derivative D) (at a)" by simp
qed

lemma jax_grad0_pointwise:
  assumes F: "\<And>x'. length x' = length t \<Longrightarrow> F x' t = Inr (sum_list (map2 g x' t))"
    and len: "length x = length t"
  shows "jax_grad0 F x t = Inr (map2 (partial_x g) x t)"
proof -
  have "map (\<lambda>j. THE D. ((\<lambda>h. value_of (F (x[j := h]) t)) has_real_derivative D) (at (x ! j)))
          [0..<length x] = map2 (partial_x g) x t"
  proof (intro nth_equalityI)
    show "length (map (\<lambda>j. THE D. ((\<lambda>h. value_of (F (x[j := h]) t)) has_real_derivative D) (at (x ! j)))
          [0..<length x]) = length (map2 (partial_x g) x t)" using len by simp
  next
    fix j assume "j < length (map (\<lambda>j. THE D. ((\<lambda>h. value_of (F (x[j := h]) t)) has_real_derivative D) (at (x ! j)))
          [0..<length x])"
    then have j: "j < length x" by simp
    have "(\<lambda>h. value_of (F (x[j := h]) t)) =
          (\<lambda>h. g h (t ! j) + (sum_list (map2 g x t) - g (x ! j) (t ! j)))"
    proof
      fix h
      have "F (x[j := h]) t = Inr (sum_list (map2 g (x[j := h]) t))"
        using len by (intro F) simp
      then show "value_of (F (x[j := h]) t) = g h (t ! j) + (sum_list (map2 g x t) - g (x ! j) (t ! j))"
        using j len by (simp add: value_of_def map2_upd_left sum_list_upd)
    qed
    then show "map (\<lambda>j. THE D. ((\<lambda>h. value_of (F (x[j := h]) t)) has_real_derivative D) (at (x ! j)))
          [0..<length x] ! j = map2 (partial_x g) x t ! j"
      using j len by (simp add: partial_x_def DERIV_add_const_iff)
  qed
  then show ?thesis using F[OF len] by (simp add: jax_grad0_def)
qed

lemma jax_grad1_pointwise:
  assumes F: "\<And>t'. length x = length t' \<Longrightarrow> F x t' = Inr (sum_list (map2 g x t'))"
    and len: "length x = length t"
  shows "jax_grad1 F x t = Inr (map2 (partial_t g) x t)"
proof -
  have "map (\<lambda>j. THE D. ((\<lambda>h. value_of (F x (t[j := h]))) has_real_derivative D) (at (t ! j)))
          [0..<length t] = map2 (partial_t g) x t"
  proof (intro nth_equalityI)
    show "length (map (\<lambda>j. THE D. ((\<lambda>h. value_of (F x (t[j := h]))) has_real_derivative D) (at (t ! j)))
          [0..<length t]) = length (map2 (partial_t g) x t)" using len by simp
  next
    fix j assume "j < length (map (\<lambda>j. THE D. ((\<lambda>h. value_of (F x (t[j := h]))) has_real_derivative D) (at (t ! j)))
          [0..<length t])"
    then have j: "j < length x" using len by simp
    have "(\<lambda>h. value_of (F x (t[j := h]))) =
          (\<lambda>h. g (x ! j) h + (sum_list (map2 g x t) - g (x ! j) (t ! j)))"
    proof
      fix h
      have "F x (t[j := h]) = Inr (sum_list (map2 g x (t[j := h])))"
        using len by (intro F) simp
      then show "value_of (F x (t[j := h])) = g (x ! j) h + (sum_list (map2 g x t) - g (x ! j) (t ! j))"
        using j len by (simp add: value_of_def map2_upd_right sum_list_upd)
    qed
    then show "map (\<lambda>j. THE D. ((\<lambda>h. value_of (F x (t[j := h]))) has_real_derivative D) (at (t ! j)))
          [0..<length t] ! j = map2 (partial_t g) x t ! j"
      using j len by (simp add: partial_t_def DERIV_add_const_iff)
  qed
  then show ?thesis using F[OF len] by (simp add: jax_grad1_def)
qed

lemma jnp_sum_singletons: "jnp_sum (map2 (\<lambda>a b. [g a b]) x t) = sum_list (map2 g x t)"
  by (simp add: jnp_sum_def comp_def split_def)

lemma forward_pointwise:
  "wf_params prms \<Longrightarrow> pointwise (\<lambda>x t. neural_net_with_hard_constraint prms x t) (u_point prms)"
  by (simp add: pointwise_def hard_constraint_wf)

lemma sum_u_pw:
  assumes "pointwise u g" and "length x = length t"
  shows "on_result jnp_sum (u x t) = Inr (sum_list (map2 g x t))"
  using assms by (simp add: pointwise_def on_result_def jnp_sum_singletons)

lemma u_x_pw:
  assumes "pointwise u g" and "length x = length t"
  shows "jax_grad0 (\<lambda>x t. on_result jnp_sum (u x t)) x t = Inr (map2 (partial_x g) x t)"
  by (rule jax_grad0_pointwise) (simp_all add: sum_u_pw assms)

lemma u_t_pw:
  assumes "pointwise u g" and "length x = length t"
  shows "jax_grad1 (\<lambda>x t. on_result jnp_sum (u x t)) x t = Inr (map2 (partial_t g) x t)"
  by (rule jax_grad1_pointwise) (simp_all add: sum_u_pw assms)

lemma u_xx_pw:
  assumes "pointwise u g" and "length x = length t"
  shows "jax_grad0 (\<lambda>x t. on_result sum_list
            (jax_grad0 (\<lambda>x t. on_result jnp_sum (u x t)) x t)) x t
         = Inr (map2 (partial_x (partial_x g)) x t)"
proof (rule jax_grad0_pointwise)
  fix x' :: column
  assume "length x' = length t"
  then have "jax_grad0 (\<lambda>x t. on_result jnp_sum (u x t)) x' t = Inr (map2 (partial_x g) x' t)"
    by (intro u_x_pw assms(1))
  then show "on_result sum_list (jax_grad0 (\<lambda>x t. on_result jnp_sum (u x t)) x' t)
      = Inr (sum_list (map2 (partial_x g) x' t))"
    by (simp only: on_result_def sum.case)
qed (rule assms(2))

subsection \<open>The forward model is twice differentiable in each coordinate\<close>

lemma twice_diff_const: "twice_diff (\<lambda>h. c)"
  unfolding twice_diff_def
  by (rule exI[of _ "\<lambda>h. 0"], rule exI[of _ "\<lambda>h. 0"]) simp

lemma twice_diff_ident: "twice_diff (\<lambda>h. h)"
  unfolding twice_diff_def
  by (rule exI[of _ "\<lambda>h. 1"], rule exI[of _ "\<lambda>h. 0"]) simp

lemma twice_diff_add:
  assumes "twice_diff a" and "twice_diff b"
  shows "twice_diff (\<lambda>h. a h + b h)"
proof -
  from assms obtain a' a'' b' b'' where
    a: "\<And>h. (a has_real_derivative a' h) (at h)" "\<And>h. (a' has_real_derivative a'' h) (at h)" and
    b: "\<And>h. (b has_real_derivative b' h) (at h)" "\<And>h. (b' has_real_derivative b'' h) (at h)"
    unfolding twice_diff_def by blast
  show ?thesis
    unfolding twice_diff_def
    apply (rule exI[of _ "\<lambda>h. a' h + b' h"], rule exI[of _ "\<lambda>h. a'' h + b'' h"])
    apply (intro conjI allI)
     apply (intro DERIV_add a b)+
    done
qed

lemma twice_diff_mult:
  assumes "twice_diff a" and "twice_diff b"
  shows "twice_diff (\<lambda>h. a h * b h)"
proof -
  from assms obtain a' a'' b' b'' where
    a: "\<And>h. (a has_real_derivative a' h) (at h)" "\<And>h. (a' has_real_derivative a'' h) (at h)" and
    b: "\<And>h. (b has_real_derivative b' h) (at h)" "\<And>h. (b' has_real_derivative b'' h) (at h)"
    unfolding twice_diff_def by blast
  have 1: "((\<lambda>h. a h * b h) has_real_derivative (a' h * b h + a h * b' h)) (at h)" for h
    by (auto intro!: derivative_eq_intros a b)
  have 2: "((\<lambda>h. a' h * b h + a h * b' h) has_real_derivative
            ((a'' h * b h + a' h * b' h) + (a' h * b' h + a h * b'' h))) (at h)" for h
    by (auto intro!: derivative_eq_intros a b)
  show ?thesis
    unfolding twice_diff_def
    by (intro exI[of _ "\<lambda>h. a' h * b h + a h * b' h"]
        exI[of _ "\<lambda>h. (a'' h * b h + a' h * b' h) + (a' h * b' h + a h * b'' h)"]
        conjI allI 1 2)
qed

lemma twice_diff_tanh:
  assumes "twice_diff a"
  shows "twice_diff (\<lambda>h. tanh (a h))"
proof -
  from assms obtain a' a'' where
    a: "\<And>h. (a has_real_derivative a' h) (at h)" "\<And>h. (a' has_real_derivative a'' h) (at h)"
    unfolding twice_diff_def by blast
  have c: "cosh (a h) \<noteq> 0" for h using cosh_real_pos[of "a h"] by simp
  have 1: "((\<lambda>h. tanh (a h)) has_real_derivative ((1 - (tanh (a h))\<^sup>2) * a' h)) (at h)" for h
    by (auto intro!: derivative_eq_intros a c)
  have 2: "((\<lambda>h. (1 - (tanh (a h))\<^sup>2) * a' h) has_real_derivative
            ((0 - 2 * tanh (a h) * ((1 - (tanh (a h))\<^sup>2) * a' h)) * a' h
              + (1 - (tanh (a h))\<^sup>2) * a'' h)) (at h)" for h
    by (auto intro!: derivative_eq_intros a c 1)
  show ?thesis
    unfolding twice_diff_def
    by (intro exI[of _ "\<lambda>h. (1 - (tanh (a h))\<^sup>2) * a' h"]
        exI[of _ "\<lambda>h. (0 - 2 * tanh (a h) * ((1 - (tanh (a h))\<^sup>2) * a' h)) * a' h
              + (1 - (tanh (a h))\<^sup>2) * a'' h"]
        conjI allI 1 2)
qed

lemma twice_diff_minus_ident: "twice_diff (\<lambda>h. 1 - h)"
  unfolding twice_diff_def
  by (rule exI[of _ "\<lambda>h. - 1"], rule exI[of _ "\<lambda>h. 0"]) (auto intro!: derivative_eq_intros)

lemma twice_diff_sum:
  fixes n :: nat
  shows "(\<And>i. i < n \<Longrightarrow> twice_diff (f i)) \<Longrightarrow> twice_diff (\<lambda>h. \<Sum>i<n. f i h)"
proof (induction n)
  case 0
  then show ?case by (simp add: twice_diff_const)
next
  case (Suc n)
  have "twice_diff (\<lambda>h. (\<Sum>i<n. f i h) + f n h)"
    by (intro twice_diff_add Suc.IH Suc.prems) simp_all
  then show ?case by simp
qed

lemma sum_list_map2_nth:
  fixes f :: "'a \<Rightarrow> 'b \<Rightarrow> real"
  assumes "length xs = length ys"
  shows "sum_list (map2 f xs ys) = (\<Sum>i<length xs. f (xs ! i) (ys ! i))"
proof -
  have "sum_list (map2 f xs ys) = (\<Sum>i = 0..<length (map2 f xs ys). map2 f xs ys ! i)"
    by (rule sum_list_sum_nth)
  also have "\<dots> = (\<Sum>i<length xs. f (xs ! i) (ys ! i))"
    using assms by (intro sum.cong) (auto simp: atLeast0LessThan)
  finally show ?thesis .
qed

lemma dense_smooth:
  assumes "smooth_row n r" and "layer_ok n m l" and "0 < n"
  shows "smooth_row m (\<lambda>h. dense l (r h))"
proof -
  have len: "\<And>h. length (r h) = n" and td: "\<And>i. i < n \<Longrightarrow> twice_diff (\<lambda>h. r h ! i)"
    using assms(1) by (simp_all add: smooth_row_def)
  have ne: "W l \<noteq> []" and lw: "length (W l) = n" and bl: "length (B l) = m"
    using assms(2,3) by (auto simp: layer_ok_def)
  have nc: "ncols (W l) = m" using assms(2) ne by (intro ncols_rect) (auto simp: layer_ok_def)
  have comp: "dense l (r h) ! j = (\<Sum>i<n. r h ! i * (W l ! i ! j)) + B l ! j" if "j < m" for h j
    using that nc bl len[of h] lw
    by (simp add: dense_def vecmat_def sum_list_map2_nth)
  have "twice_diff (\<lambda>h. dense l (r h) ! j)" if "j < m" for j
  proof -
    have "twice_diff (\<lambda>h. (\<Sum>i<n. r h ! i * (W l ! i ! j)) + B l ! j)"
      by (intro twice_diff_add twice_diff_sum twice_diff_mult twice_diff_const td)
    then show ?thesis using comp[OF that] by simp
  qed
  moreover have "length (dense l (r h)) = m" for h
    using nc bl by (simp add: dense_def vecmat_def)
  ultimately show ?thesis by (simp add: smooth_row_def)
qed

lemma tanh_smooth:
  assumes "smooth_row m r"
  shows "smooth_row m (\<lambda>h. map tanh (r h))"
proof -
  have len: "\<And>h. length (r h) = m" and td: "\<And>i. i < m \<Longrightarrow> twice_diff (\<lambda>h. r h ! i)"
    using assms by (simp_all add: smooth_row_def)
  have "twice_diff (\<lambda>h. map tanh (r h) ! i)" if "i < m" for i
    using twice_diff_tanh[OF td[OF that]] that len by simp
  then show ?thesis using len by (simp add: smooth_row_def)
qed

lemma hidden_smooth:
  assumes "chain_ok n (ls @ [lst])" and "smooth_row n r"
  shows "\<exists>m. smooth_row m (\<lambda>h. fold (\<lambda>l r. map tanh (dense l r)) ls (r h)) \<and> chain_ok m [lst]"
  using assms
proof (induction ls arbitrary: n r)
  case Nil
  then show ?case by auto
next
  case (Cons l ls)
  let ?m = "length (B l)"
  have lo: "layer_ok n ?m l" and n0: "0 < n" and ch: "chain_ok ?m (ls @ [lst])"
    using Cons.prems(1) by simp_all
  have "smooth_row ?m (\<lambda>h. map tanh (dense l (r h)))"
    by (intro tanh_smooth dense_smooth[OF Cons.prems(2) lo n0])
  from Cons.IH[OF ch this] show ?case by simp
qed

lemma base_point_smooth:
  assumes "wf_params prms" and "smooth_row 2 r"
  shows "twice_diff (\<lambda>h. hd (dense (last prms) (fold (\<lambda>l r. map tanh (dense l r)) (butlast prms) (r h))))"
proof -
  have ch: "chain_ok 2 (butlast prms @ [last prms])"
    using assms(1) by (simp add: wf_params_def)
  from hidden_smooth[OF ch assms(2)] obtain m where
    m: "smooth_row m (\<lambda>h. fold (\<lambda>l r. map tanh (dense l r)) (butlast prms) (r h))"
       "chain_ok m [last prms]" by blast
  have lo: "layer_ok m 1 (last prms)" and m0: "0 < m" using m(2) by auto
  have s: "smooth_row 1 (\<lambda>h. dense (last prms) (fold (\<lambda>l r. map tanh (dense l r)) (butlast prms) (r h)))"
    by (rule dense_smooth[OF m(1) lo m0])
  then have "twice_diff (\<lambda>h. dense (last prms) (fold (\<lambda>l r. map tanh (dense l r)) (butlast prms) (r h)) ! 0)"
    by (simp add: smooth_row_def)
  moreover have "hd (dense (last prms) (fold (\<lambda>l r. map tanh (dense l r)) (butlast prms) (r h)))
       = dense (last prms) (fold (\<lambda>l r. map tanh (dense l r)) (butlast prms) (r h)) ! 0" for h
  proof (rule hd_conv_nth)
    have "length (dense (last prms) (fold (\<lambda>l r. map tanh (dense l r)) (butlast prms) (r h))) = 1"
      using s by (simp add: smooth_row_def)
    then show "dense (last prms) (fold (\<lambda>l r. map tanh (dense l r)) (butlast prms) (r h)) \<noteq> []"
      by auto
  qed
  ultimately show ?thesis by simp
qed

lemma smooth_row_x: "smooth_row 2 (\<lambda>h. [h, t])"
  by (auto simp: smooth_row_def less_Suc_eq numeral_2_eq_2 twice_diff_ident twice_diff_const)

lemma smooth_row_t: "smooth_row 2 (\<lambda>h. [x, h])"
  by (auto simp: smooth_row_def less_Suc_eq numeral_2_eq_2 twice_diff_ident twice_diff_const)

lemma u_point_smooth_x:
  assumes "wf_params prms"
  shows "twice_diff (\<lambda>h. u_point prms h t)"
  unfolding u_point_def base_point_def
  by (intro twice_diff_add twice_diff_mult base_point_smooth[OF assms] smooth_row_x
      twice_diff_ident twice_diff_minus_ident)

lemma u_point_smooth_t:
  assumes "wf_params prms"
  shows "twice_diff (\<lambda>h. u_point prms x h)"
  unfolding u_point_def base_point_def
  by (intro twice_diff_add twice_diff_mult base_point_smooth[OF assms] smooth_row_t
      twice_diff_const)

lemma partial_x_eq:
  "((\<lambda>h. f h t) has_real_derivative D) (at x) \<Longrightarrow> partial_x f x t = D"
  unfolding partial_x_def by (rule the_equality) (auto intro: DERIV_unique)

lemma partial_t_eq:
  "((\<lambda>h. f x h) has_real_derivative D) (at t) \<Longrightarrow> partial_t f x t = D"
  unfolding partial_t_def by (rule the_equality) (auto intro: DERIV_unique)

lemma twice_diff_partial_x:
  assumes "\<And>t. twice_diff (\<lambda>h. f h t)"
  shows "((\<lambda>h. f h t) has_real_derivative partial_x f x t) (at x)"
    and "((\<lambda>h. partial_x f h t) has_real_derivative partial_x (partial_x f) x t) (at x)"
proof -
  from assms[of t] obtain a' a'' where
    a: "\<And>h. ((\<lambda>h. f h t) has_real_derivative a' h) (at h)"
       "\<And>h. (a' has_real_derivative a'' h) (at h)"
    unfolding twice_diff_def by blast
  have e: "(\<lambda>h. partial_x f h t) = a'"
    by (rule ext) (rule partial_x_eq[where f = f and t = t], rule a(1))
  show "((\<lambda>h. f h t) has_real_derivative partial_x f x t) (at x)"
    using a(1)[of x] e by (metis)
  have "((\<lambda>h. partial_x f h t) has_real_derivative a'' x) (at x)"
    using a(2)[of x] e by simp
  then show "((\<lambda>h. partial_x f h t) has_real_derivative partial_x (partial_x f) x t) (at x)"
    using partial_x_eq[where f = "partial_x f" and t = t and D = "a'' x" and x = x] by simp
qed

lemma twice_diff_partial_t:
  assumes "twice_diff (\<lambda>h. f x h)"
  shows "((\<lambda>h. f x h) has_real_derivative partial_t f x t) (at t)"
proof -
  from assms obtain a' where a: "\<And>h. ((\<lambda>h. f x h) has_real_derivative a' h) (at h)"
    unfolding twice_diff_def by blast
  have "partial_t f x t = a' t"
    by (rule partial_t_eq[where f = f and x = x], rule a)
  then show ?thesis using a[of t] by simp
qed

subsection \<open>Residual and loss in closed form\<close>

lemma t0_cols: "map fst (t0 xb) = xb" "map snd (t0 xb) = map (\<lambda>x. tmin) xb"
  by (simp_all add: t0_def map_replicate_const)

lemma ic_pw:
  assumes "pointwise u g"
  shows "u (map fst (t0 xb)) (map snd (t0 xb)) = Inr (map (\<lambda>x. [g x tmin]) xb)"
proof -
  have "map2 (\<lambda>a b. [g a b]) xb (map (\<lambda>x. tmin) xb) = map (\<lambda>x. [g x tmin]) xb"
    by (intro nth_equalityI) simp_all
  then show ?thesis
    using assms by (simp add: pointwise_def t0_cols)
qed

lemma pde_residual_pw:
  assumes "pointwise u g" and "length x = length t"
  shows "pde_residual_2d_darcy (t0 xb) x t u =
         Inr (map2 (residual_point g) x t, map (\<lambda>xi. g xi tmin - 0) xb)"
proof -
  have z: "map (\<lambda>(a, b, c). a - 1/10 * (- b + c))
        (zip (map2 (partial_t g) x t)
          (zip (map2 (partial_x g) x t) (map2 (partial_x (partial_x g)) x t)))
      = map2 (residual_point g) x t"
    using assms(2) by (intro nth_equalityI) (simp_all add: residual_point_def)
  have c: "concat (map (\<lambda>x. [g x tmin]) xb) = map (\<lambda>x. g x tmin) xb"
    by (induction xb) simp_all
  show ?thesis
    unfolding pde_residual_2d_darcy_def Let_def
    by (simp only: ic_pw[OF assms(1)] u_t_pw[OF assms] u_x_pw[OF assms] u_xx_pw[OF assms]
        sum.case z c) (simp add: comp_def)
qed

lemma pde_residual_wf:
  assumes "wf_params prms" and "length x = length t"
  shows "pde_residual_2d_darcy (t0 xb) x t (\<lambda>x t. neural_net_with_hard_constraint prms x t) =
         Inr (map2 (residual_point (u_point prms)) x t, map (\<lambda>xi. u_point prms xi tmin - 0) xb)"
  by (rule pde_residual_pw[OF forward_pointwise[OF assms(1)] assms(2)])


lemma lambda_t_ge1: "1 \<le> lambda_t t"
  by (simp add: lambda_t_def lambda_early_def lambda_late_def)

subsection \<open>A one-layer example\<close>

lemma example_wf: "wf_params [\<lparr>W = [[2], [3]], B = [1]\<rparr>]"
  by (simp add: wf_params_def layer_ok_def)

lemma example_u_point: "u_point [\<lparr>W = [[2], [3]], B = [1]\<rparr>] a b = 2 * a\<^sup>2 + 3 * b * a + 1"
  by (simp add: u_point_def base_point_def dense_def vecmat_def ncols_def power2_eq_square algebra_simps)

lemma example_partial_x: "partial_x (u_point [\<lparr>W = [[2], [3]], B = [1]\<rparr>]) a b = 4 * a + 3 * b"
  by (rule partial_x_eq) (auto simp: example_u_point intro!: derivative_eq_intros)

lemma example_partial_xx:
  "partial_x (partial_x (u_point [\<lparr>W = [[2], [3]], B = [1]\<rparr>])) a b = 4"
  by (rule partial_x_eq) (auto simp: example_partial_x intro!: derivative_eq_intros)

lemma example_partial_t: "partial_t (u_point [\<lparr>W = [[2], [3]], B = [1]\<rparr>]) a b = 3 * a"
  by (rule partial_t_eq) (auto simp: example_u_point intro!: derivative_eq_intros)

text \<open>
  C2. On a well-shaped parameter set and a batch of \<open>N\<close> points, the forward model
  evaluates each row on its own point. The gradient of the batch sum with respect
  to the x-column is, entry by entry, the partial derivative in \<open>x\<close> of the
  one-point function at \<open>(x_i, t_i)\<close>; applied to its own result it gives the second
  partial derivative; with respect to the t-column it gives the partial derivative
  in \<open>t\<close>. These partial derivatives exist at every point.
\<close>

theorem sum_then_differentiate:
  assumes "wf_params prms" and "length x = length t"
  shows "neural_net_with_hard_constraint prms x t = Inr (map2 (\<lambda>a b. [u_point prms a b]) x t) \<and>
    jax_grad0 (\<lambda>x t. on_result jnp_sum (neural_net_with_hard_constraint prms x t)) x t =
      Inr (map2 (partial_x (u_point prms)) x t) \<and>
    jax_grad0 (\<lambda>x t. on_result sum_list
        (jax_grad0 (\<lambda>x t. on_result jnp_sum (neural_net_with_hard_constraint prms x t)) x t)) x t =
      Inr (map2 (partial_x (partial_x (u_point prms))) x t) \<and>
    jax_grad1 (\<lambda>x t. on_result jnp_sum (neural_net_with_hard_constraint prms x t)) x t =
      Inr (map2 (partial_t (u_point prms)) x t) \<and>
    (\<forall>a b. ((\<lambda>h. u_point prms h b) has_real_derivative partial_x (u_point prms) a b) (at a) \<and>
       ((\<lambda>h. partial_x (u_point prms) h b) has_real_derivative
          partial_x (partial_x (u_point prms)) a b) (at a) \<and>
       ((\<lambda>h. u_point prms a h) has_real_derivative partial_t (u_point prms) a b) (at b))"
proof -
  have sx: "\<And>b. twice_diff (\<lambda>h. u_point prms h b)"
    by (rule u_point_smooth_x[OF assms(1)])
  have st: "\<And>a. twice_diff (\<lambda>h. u_point prms a h)"
    by (rule u_point_smooth_t[OF assms(1)])
  show ?thesis
    using hard_constraint_wf[OF assms] u_x_pw[OF forward_pointwise[OF assms(1)] assms(2)]
      u_xx_pw[OF forward_pointwise[OF assms(1)] assms(2)]
      u_t_pw[OF forward_pointwise[OF assms(1)] assms(2)]
      twice_diff_partial_x[of "u_point prms", OF sx] twice_diff_partial_t[of "u_point prms", OF st]
    by blast
qed

theorem sum_then_differentiate_witness:
  "wf_params [\<lparr>W = [[2], [3]], B = [1]\<rparr>] \<and> length [1/2 :: real] = length [1/3 :: real] \<and>
   jax_grad0 (\<lambda>x t. on_result jnp_sum
      (neural_net_with_hard_constraint [\<lparr>W = [[2], [3]], B = [1]\<rparr>] x t)) [1/2] [1/3] = Inr [3] \<and>
   jax_grad0 (\<lambda>x t. on_result sum_list (jax_grad0 (\<lambda>x t. on_result jnp_sum
      (neural_net_with_hard_constraint [\<lparr>W = [[2], [3]], B = [1]\<rparr>] x t)) x t)) [1/2] [1/3] = Inr [4] \<and>
   jax_grad1 (\<lambda>x t. on_result jnp_sum
      (neural_net_with_hard_constraint [\<lparr>W = [[2], [3]], B = [1]\<rparr>] x t)) [1/2] [1/3] = Inr [3/2]"
  using sum_then_differentiate [OF example_wf, of "[1/2]" "[1/3]"] example_wf
  by (simp add: example_partial_x example_partial_xx example_partial_t)

text \<open>
  C3. For a model function that evaluates each batch row on its own point, and a
  batch \<open>(x, t)\<close>, the residual assembler returns, at each batch position,
  \<open>u_t - 0.1 * (- u_x + u_xx)\<close> with the partial derivatives of the one-point
  function taken at that batch point; and, as the initial-condition residual,
  \<open>u(x_ic, tmin) - 0\<close> at each of the externally supplied initial-time abscissae
  \<open>xb\<close>, whatever the batch is. The forward model on a well-shaped parameter set
  is such a function.
\<close>

theorem residual_assembler:
  "(pointwise u g \<and> length x = length t \<longrightarrow>
      pde_residual_2d_darcy (t0 xb) x t u =
        Inr (map2 (\<lambda>a b. partial_t g a b - 1/10 * (- partial_x g a b + partial_x (partial_x g) a b)) x t,
             map (\<lambda>xi. g xi tmin - 0) xb)) \<and>
   (wf_params prms \<longrightarrow>
      pointwise (\<lambda>x t. neural_net_with_hard_constraint prms x t) (u_point prms))"
  using pde_residual_pw[of u g x t xb] forward_pointwise[of prms]
  by (simp add: residual_point_def[abs_def])

theorem residual_assembler_witness:
  "wf_params [\<lparr>W = [[2], [3]], B = [1]\<rparr>] \<and>
   pointwise (\<lambda>x t. neural_net_with_hard_constraint [\<lparr>W = [[2], [3]], B = [1]\<rparr>] x t)
     (u_point [\<lparr>W = [[2], [3]], B = [1]\<rparr>]) \<and>
   length [1/2 :: real] = length [1/3 :: real] \<and>
   pde_residual_2d_darcy (t0 [1/4]) [1/2] [1/3]
     (\<lambda>x t. neural_net_with_hard_constraint [\<lparr>W = [[2], [3]], B = [1]\<rparr>] x t) = Inr ([7/5], [9/8])"
proof -
  let ?p = "[\<lparr>W = [[2], [3]], B = [1]\<rparr>]"
  have pw: "pointwise (\<lambda>x t. neural_net_with_hard_constraint ?p x t) (u_point ?p)"
    using residual_assembler [of _ _ _ _ _ ?p] example_wf by blast
  from residual_assembler [of "\<lambda>x t. neural_net_with_hard_constraint ?p x t" "u_point ?p"
      "[1/2]" "[1/3]" "[1/4]"] pw
  have "pde_residual_2d_darcy (t0 [1/4]) [1/2] [1/3]
          (\<lambda>x t. neural_net_with_hard_constraint ?p x t) = Inr ([7/5], [9/8])"
    by (simp add: example_partial_x example_partial_xx example_partial_t example_u_point tmin_def
        power2_eq_square)
  with pw example_wf show ?thesis by simp
qed

subsection \<open>Initial parameters\<close>

lemma xavier_range:
  fixes u c :: real
  assumes "0 \<le> u" and "u < 1" and "0 \<le> c"
  shows "- c \<le> - c + (c - (- c)) * u" and "- c + (c - (- c)) * u \<le> c"
proof -
  have "0 \<le> 2 * c * u" using assms by simp
  then show "- c \<le> - c + (c - (- c)) * u" by (simp add: algebra_simps)
  have "c * u \<le> c * 1" using assms by (intro mult_left_mono) simp_all
  then show "- c + (c - (- c)) * u \<le> c" by (simp add: algebra_simps)
qed

lemma init_params_layers:
  assumes ok: "split_ok split" "uniform_ok uniform2 uniform1"
    and ps: "init_params split uniform2 uniform1 key0 layers = Inr ps"
  shows "length ps = length layers - 1"
    and "i < length ps \<Longrightarrow> row \<in> set (W (ps ! i)) \<Longrightarrow> w \<in> set row \<Longrightarrow>
           - (1 / sqrt (real (layers ! i))) \<le> w \<and> w \<le> 1 / sqrt (real (layers ! i))"
    and "i < length ps \<Longrightarrow> b \<in> set (B (ps ! i)) \<Longrightarrow> 0 \<le> b \<and> b < 1"
    and "i < length ps \<Longrightarrow> layer_ok (layers ! i) (layers ! (i + 1)) (ps ! i)"
proof -
  let ?keys = "split key0 (length layers - 1)"
  let ?z = "zip ?keys (zip (butlast layers) (tl layers))"
  have ne: "layers \<noteq> []" using ps by (auto simp: init_params_def split: if_splits)
  have lk: "length ?keys = length layers - 1" using ok(1) by (simp add: split_ok_def)
  have lz: "length ?z = length layers - 1" using lk by simp
  have psd: "ps = map (\<lambda>(key, n_in, n_out).
                   let lb = - (1 / sqrt (real n_in)); ub = 1 / sqrt (real n_in);
                       Wm = map (map (\<lambda>u. lb + (ub - lb) * u)) (uniform2 key n_in n_out);
                       Bv = uniform1 key n_out
                   in \<lparr>W = Wm, B = Bv\<rparr>) ?z"
    using ps ne by (simp add: init_params_def Let_def)
  show len: "length ps = length layers - 1" using psd lz by simp
  {
    assume i: "i < length ps"
    then have il: "i < length layers - 1" using len by simp
    have zi: "?z ! i = (?keys ! i, layers ! i, layers ! (i + 1))"
      using il lk by (simp add: nth_butlast nth_tl)
    have pi: "ps ! i = \<lparr>W = map (map (\<lambda>u. - (1 / sqrt (real (layers ! i)))
                  + (1 / sqrt (real (layers ! i)) - (- (1 / sqrt (real (layers ! i))))) * u))
                  (uniform2 (?keys ! i) (layers ! i) (layers ! (i + 1))),
                B = uniform1 (?keys ! i) (layers ! (i + 1))\<rparr>"
      using il lz zi by (simp add: psd Let_def)
    note u = ok(2)[unfolded uniform_ok_def, rule_format, of "?keys ! i" "layers ! i" "layers ! (i + 1)"]
    show "row \<in> set (W (ps ! i)) \<Longrightarrow> w \<in> set row \<Longrightarrow>
           - (1 / sqrt (real (layers ! i))) \<le> w \<and> w \<le> 1 / sqrt (real (layers ! i))"
    proof -
      assume "row \<in> set (W (ps ! i))" and "w \<in> set row"
      then obtain row0 u0 where r0: "row0 \<in> set (uniform2 (?keys ! i) (layers ! i) (layers ! (i + 1)))"
        and u0: "u0 \<in> set row0"
        and w: "w = - (1 / sqrt (real (layers ! i)))
                  + (1 / sqrt (real (layers ! i)) - (- (1 / sqrt (real (layers ! i))))) * u0"
        by (auto simp: pi)
      have "0 \<le> u0 \<and> u0 < 1" using u r0 u0 by blast
      then show ?thesis
        unfolding w using xavier_range[of u0 "1 / sqrt (real (layers ! i))"] by simp
    qed
    show "b \<in> set (B (ps ! i)) \<Longrightarrow> 0 \<le> b \<and> b < 1"
      using u by (auto simp: pi)
    show "layer_ok (layers ! i) (layers ! (i + 1)) (ps ! i)"
      using u by (auto simp: pi layer_ok_def)
  }
qed

lemma inv_sqrt2_less: "1 / sqrt 2 < (9/10 :: real)"
proof -
  have "(10/9 :: real) < sqrt 2" by (rule real_less_rsqrt) (simp add: power2_eq_square)
  then have "1 / sqrt 2 < 1 / (10/9 :: real)" by (intro divide_strict_left_mono) simp_all
  then show ?thesis by simp
qed

text \<open>
  C9, as the code has it. For layer sizes \<open>layers\<close>, layer \<open>i\<close> of the initial
  parameter set has every weight within \<open>\<plusminus>1/\<surd>n_in\<close> for its input width
  \<open>n_in = layers[i]\<close>, and every bias entry in \<open>[0, 1)\<close>: the bias is the unscaled
  uniform draw.
\<close>

theorem init_params_bounds:
  "split_ok split \<and> uniform_ok uniform2 uniform1 \<longrightarrow>
     (layers \<noteq> [] \<longrightarrow> (\<exists>ps. init_params split uniform2 uniform1 key0 layers = Inr ps)) \<and>
     (\<forall>ps. init_params split uniform2 uniform1 key0 layers = Inr ps \<longrightarrow>
        length ps = length layers - 1 \<and>
        (\<forall>i < length ps.
           (\<forall>row \<in> set (W (ps ! i)). \<forall>w \<in> set row.
              - (1 / sqrt (real (layers ! i))) \<le> w \<and> w \<le> 1 / sqrt (real (layers ! i))) \<and>
           (\<forall>b \<in> set (B (ps ! i)). 0 \<le> b \<and> b < 1)))"
proof (intro impI)
  assume "split_ok split \<and> uniform_ok uniform2 uniform1"
  then have s: "split_ok split" and u: "uniform_ok uniform2 uniform1" by simp_all
  have ret: "layers \<noteq> [] \<longrightarrow> (\<exists>ps. init_params split uniform2 uniform1 key0 layers = Inr ps)"
    by (simp add: init_params_def Let_def)
  have bounds: "length ps = length layers - 1 \<and>
        (\<forall>i < length ps.
           (\<forall>row \<in> set (W (ps ! i)). \<forall>w \<in> set row.
              - (1 / sqrt (real (layers ! i))) \<le> w \<and> w \<le> 1 / sqrt (real (layers ! i))) \<and>
           (\<forall>b \<in> set (B (ps ! i)). 0 \<le> b \<and> b < 1))"
    if ps: "init_params split uniform2 uniform1 key0 layers = Inr ps" for ps
  proof (intro conjI allI impI ballI)
    show "length ps = length layers - 1" by (rule init_params_layers(1)[OF s u ps])
  next
    fix i row w
    assume "i < length ps" and "row \<in> set (W (ps ! i))" and "w \<in> set row"
    then show "- (1 / sqrt (real (layers ! i))) \<le> w" and "w \<le> 1 / sqrt (real (layers ! i))"
      using init_params_layers(2)[OF s u ps] by simp_all
  next
    fix i b
    assume "i < length ps" and "b \<in> set (B (ps ! i))"
    then show "0 \<le> b" and "b < 1"
      using init_params_layers(3)[OF s u ps] by simp_all
  qed
  show "(layers \<noteq> [] \<longrightarrow> (\<exists>ps. init_params split uniform2 uniform1 key0 layers = Inr ps)) \<and>
     (\<forall>ps. init_params split uniform2 uniform1 key0 layers = Inr ps \<longrightarrow>
        length ps = length layers - 1 \<and>
        (\<forall>i < length ps.
           (\<forall>row \<in> set (W (ps ! i)). \<forall>w \<in> set row.
              - (1 / sqrt (real (layers ! i))) \<le> w \<and> w \<le> 1 / sqrt (real (layers ! i))) \<and>
           (\<forall>b \<in> set (B (ps ! i)). 0 \<le> b \<and> b < 1)))"
    using ret bounds by blast
qed

theorem init_params_bounds_witness:
  "split_ok (\<lambda>key n. replicate n (key :: unit)) \<and>
   uniform_ok (\<lambda>(key :: unit) n m. replicate n (replicate m (9/10))) (\<lambda>key m. replicate m (9/10)) \<and>
   init_params (\<lambda>key n. replicate n key) (\<lambda>key n m. replicate n (replicate m (9/10)))
       (\<lambda>key m. replicate m (9/10)) () [2, 1] =
     Inr [\<lparr>W = [[- (1 / sqrt 2) + (1 / sqrt 2 - - (1 / sqrt 2)) * (9/10)],
                [- (1 / sqrt 2) + (1 / sqrt 2 - - (1 / sqrt 2)) * (9/10)]],
           B = [9/10]\<rparr>] \<and>
   - (1 / sqrt 2) \<le> - (1 / sqrt 2) + (1 / sqrt 2 - - (1 / sqrt 2)) * (9/10) \<and>
   - (1 / sqrt 2) + (1 / sqrt 2 - - (1 / sqrt 2)) * (9/10) \<le> 1 / sqrt 2"
proof -
  let ?split = "\<lambda>(key :: unit) n. replicate n key"
  let ?u2 = "\<lambda>(key :: unit) n m. replicate n (replicate m (9/10 :: real))"
  let ?u1 = "\<lambda>(key :: unit) m. replicate m (9/10 :: real)"
  let ?w = "- (1 / sqrt 2) + (1 / sqrt 2 - - (1 / sqrt 2)) * (9/10)"
  let ?ps = "[\<lparr>W = [[?w], [?w]], B = [9/10]\<rparr>]"
  have s: "split_ok ?split" by (simp add: split_ok_def)
  have u: "uniform_ok ?u2 ?u1" by (simp add: uniform_ok_def)
  have e: "init_params ?split ?u2 ?u1 () [2, 1] = Inr ?ps"
    by (simp add: init_params_def numeral_2_eq_2)
  from init_params_bounds [of ?split ?u2 ?u1 "[2, 1]" "()"] s u e
  have "\<forall>i < length ?ps. \<forall>row \<in> set (W (?ps ! i)). \<forall>w \<in> set row.
          - (1 / sqrt (real ([2, 1] ! i))) \<le> w \<and> w \<le> 1 / sqrt (real ([2, 1] ! i))"
    by blast
  then have "- (1 / sqrt 2) \<le> ?w \<and> ?w \<le> 1 / sqrt 2"
    by simp
  with s u e show ?thesis by simp
qed

text \<open>
  C9, as stated: bias entries within \<open>\<plusminus>1/\<surd>n_in\<close> as well. A uniform draw of 0.9
  is a bias of 0.9, above \<open>1/\<surd>2\<close> for the first layer of a network with two inputs.
\<close>

theorem init_params_bias_counterexample:
  "(case init_params (\<lambda>key n. replicate n key) (\<lambda>key n m. replicate n (replicate m (9/10)))
           (\<lambda>key m. replicate m (9/10)) () [2, 1]
    of Inl e \<Rightarrow> [] | Inr ps \<Rightarrow> map B ps) = [[9/10]] \<and> 1 / sqrt (real 2) < 9/10"
  using inv_sqrt2_less by (simp add: init_params_def)

lemma chain_ok_sizes:
  "length ns = length ps + 1 \<Longrightarrow> last ns = 1 \<Longrightarrow>
   (\<forall>i < length ps. 0 < ns ! i \<and> layer_ok (ns ! i) (ns ! (i + 1)) (ps ! i)) \<Longrightarrow>
   chain_ok (hd ns) ps"
proof (induction ps arbitrary: ns)
  case Nil
  then show ?case by (cases ns) simp_all
next
  case (Cons l ls)
  from Cons.prems(1) obtain n ns' where ns: "ns = n # ns'" and l': "length ns' = length ls + 1"
    by (cases ns) simp_all
  have 0: "0 < n \<and> layer_ok n (ns' ! 0) l"
    using Cons.prems(3)[rule_format, of 0] ns by simp
  then have bl: "length (B l) = hd ns'" using l' by (cases ns') (simp_all add: layer_ok_def)
  have "chain_ok (hd ns') ls"
  proof (rule Cons.IH[OF l'])
    show "last ns' = 1" using Cons.prems(2) ns l' by (cases ns') simp_all
    show "\<forall>i < length ls. 0 < ns' ! i \<and> layer_ok (ns' ! i) (ns' ! (i + 1)) (ls ! i)"
    proof (intro allI impI)
      fix i assume "i < length ls"
      then show "0 < ns' ! i \<and> layer_ok (ns' ! i) (ns' ! (i + 1)) (ls ! i)"
        using Cons.prems(3)[rule_format, of "Suc i"] ns by simp
    qed
  qed
  then show ?case using 0 bl ns l' by (cases ns') simp_all
qed

text \<open>
  The parameter set the program starts from, \<^verbatim>\<open>init_params([2] + [40]*5 + [1])\<close>, has
  six layers and is well-shaped: input width 2, widths chained, output width 1.
\<close>

theorem initial_params_wf:
  assumes "split_ok split" and "uniform_ok uniform2 uniform1"
  shows "\<exists>ps. init_params split uniform2 uniform1 key0 layer_sizes = Inr ps \<and>
              length ps = 6 \<and> wf_params ps"
proof -
  have ne: "layer_sizes \<noteq> []" by (simp add: layer_sizes_def)
  then obtain ps where ps: "init_params split uniform2 uniform1 key0 layer_sizes = Inr ps"
    by (simp add: init_params_def Let_def)
  note L = init_params_layers[OF assms ps]
  have len: "length ps = 6" using L(1) by (simp add: layer_sizes_def hidden_layers_def)
  have pos: "\<forall>i < length ps. 0 < layer_sizes ! i"
    unfolding len layer_sizes_def hidden_layers_def hidden_nodes_def
    by (simp add: eval_nat_numeral less_Suc_eq nth_Cons' nth_append)
  have "chain_ok (hd layer_sizes) ps"
  proof (rule chain_ok_sizes)
    show "length layer_sizes = length ps + 1"
      using len by (simp add: layer_sizes_def hidden_layers_def)
    show "last layer_sizes = 1" by (simp add: layer_sizes_def)
    show "\<forall>i < length ps. 0 < layer_sizes ! i \<and>
            layer_ok (layer_sizes ! i) (layer_sizes ! (i + 1)) (ps ! i)"
      using pos L(4) by blast
  qed
  then have "wf_params ps" using len by (auto simp: wf_params_def layer_sizes_def)
  with ps len show ?thesis by blast
qed

theorem initial_params_wf_witness:
  "split_ok (\<lambda>key n. replicate n (key :: unit)) \<and>
   uniform_ok (\<lambda>(key :: unit) n m. replicate n (replicate m (9/10))) (\<lambda>key m. replicate m (9/10)) \<and>
   (\<exists>ps. init_params (\<lambda>key n. replicate n key) (\<lambda>key n m. replicate n (replicate m (9/10)))
            (\<lambda>key m. replicate m (9/10)) () layer_sizes = Inr ps \<and> length ps = 6 \<and> wf_params ps)"
proof -
  have s: "split_ok (\<lambda>key n. replicate n (key :: unit))" by (simp add: split_ok_def)
  have u: "uniform_ok (\<lambda>(key :: unit) n m. replicate n (replicate m (9/10)))
             (\<lambda>key m. replicate m (9/10))" by (simp add: uniform_ok_def)
  from initial_params_wf [OF s u, of "()"] s u show ?thesis by simp
qed

subsection \<open>The time-weighting schedule at its breakpoint\<close>

lemma lambda_early_breakpoint: "lambda_early (1/10) = 1"
  by (simp add: lambda_early_def tmin_def)

lemma lambda_late_breakpoint: "lambda_late (1/10) = 86/5"
  by (simp add: lambda_late_def tmin_def tmax_def power2_eq_square)

lemma lambda_t_breakpoint: "lambda_t (1/10) = 1"
  by (simp add: lambda_t_def lambda_early_def tmin_def)

lemma lambda_t_right: "1/10 < t \<Longrightarrow> t \<le> 1/5 \<Longrightarrow> 13 \<le> lambda_t t"
  unfolding lambda_t_def lambda_late_def tmin_def tmax_def
  apply (simp add: power2_eq_square)
  apply (subgoal_tac "(4/5) * (4/5) \<le> (1 - t) * (1 - t)")
   apply simp
  apply (rule mult_mono)
     apply simp_all
  done

lemma lambda_t_not_cont: "\<not> isCont lambda_t (1/10)"
proof
  assume "isCont lambda_t (1/10)"
  then obtain d where d: "d > 0"
    "\<And>t. \<bar>t - 1/10\<bar> < d \<Longrightarrow> \<bar>lambda_t t - lambda_t (1/10)\<bar> < 1"
    unfolding isCont_def LIM_def dist_real_def
    by (metis abs_zero cancel_comm_monoid_add_class.diff_cancel zero_less_one)
  define t where "t = 1/10 + min (d/2) (1/10)"
  have "\<bar>t - 1/10\<bar> < d" using d(1) by (simp add: t_def)
  from d(2)[OF this] have "lambda_t t < 2" by (simp add: lambda_t_breakpoint)
  moreover have "13 \<le> lambda_t t"
    using d(1) by (intro lambda_t_right) (simp_all add: t_def)
  ultimately show False by simp
qed

text \<open>
  C5, as the code has it. At \<open>t = 0.1\<close> the early branch of the schedule gives 1 and
  the late branch gives 17.2 (with \<open>tmin = 0\<close>, \<open>tmax = 1\<close>). The mask \<open>t \<le> 0.1\<close>
  selects the early branch there, so the weight at the breakpoint is 1, while every
  \<open>t\<close> in \<open>(0.1, 0.2]\<close> has weight at least 13: the schedule jumps at the breakpoint.
\<close>

theorem lambda_breakpoint_jump:
  "lambda_early (1/10) = 1 \<and> lambda_late (1/10) = 86/5 \<and> lambda_t (1/10) = 1 \<and>
   (\<forall>t. 1/10 < t \<and> t \<le> 1/5 \<longrightarrow> 13 \<le> lambda_t t)"
  using lambda_early_breakpoint lambda_late_breakpoint lambda_t_breakpoint lambda_t_right
  by blast

theorem lambda_breakpoint_jump_witness:
  "(1/10 :: real) < 3/20 \<and> (3/20 :: real) \<le> 1/5 \<and> 13 \<le> lambda_t (3/20) \<and>
   lambda_t (1/10) = 1"
  using lambda_breakpoint_jump [THEN conjunct2, THEN conjunct2, THEN conjunct2, rule_format, of "3/20"]
    lambda_breakpoint_jump [THEN conjunct2, THEN conjunct2, THEN conjunct1]
  by simp

text \<open>
  C5, as stated: the two branches agree at \<open>t = 0.1\<close> and the schedule has no
  discontinuity there. Both fail.
\<close>

theorem lambda_breakpoint_counterexample:
  "lambda_early (1/10) \<noteq> lambda_late (1/10) \<and> \<not> isCont lambda_t (1/10)"
  using lambda_t_not_cont by (simp add: lambda_early_breakpoint lambda_late_breakpoint)

subsection \<open>The loss function on float32\<close>

lemma flt_max_pos: "0 < flt_max"
  by (simp add: flt_max_def)

lemma nonneg_f_iff: "nonneg_f p \<longleftrightarrow> fle (Finite 0) p"
  by (cases p) (auto simp: fle_def)

subsection \<open>A finite result has finite operands\<close>

lemma f32_Finite: "f32 w = Finite v \<Longrightarrow> w = v"
  by (simp add: f32_def split: if_splits)

lemma to_range_Finite: "to_range p = Finite v \<Longrightarrow> p = Finite v"
  by (cases p) (auto simp: to_range_def dest: f32_Finite)

lemma fadd_Finite: "fadd a b = Finite v \<Longrightarrow> \<exists>x y. a = Finite x \<and> b = Finite y \<and> v = x + y"
  by (cases a; cases b) auto

lemma fmul_Finite: "fmul a b = Finite v \<Longrightarrow> \<exists>x y. a = Finite x \<and> b = Finite y \<and> v = x * y"
  by (cases a; cases b) (auto split: if_splits)

lemma fneg_Finite: "fneg a = Finite v \<Longrightarrow> \<exists>x. a = Finite x \<and> v = - x"
  by (cases a) auto

lemma fadd32_Finite: "fadd32 a b = Finite v \<Longrightarrow> \<exists>x y. a = Finite x \<and> b = Finite y \<and> v = x + y"
  unfolding fadd32_def by (drule to_range_Finite) (rule fadd_Finite)

lemma fmul32_Finite: "fmul32 a b = Finite v \<Longrightarrow> \<exists>x y. a = Finite x \<and> b = Finite y \<and> v = x * y"
  unfolding fmul32_def by (drule to_range_Finite) (rule fmul_Finite)

lemma fsub32_Finite: "fsub32 a b = Finite v \<Longrightarrow> \<exists>x y. a = Finite x \<and> b = Finite y \<and> v = x - y"
  unfolding fsub32_def fsub_def
  by (drule to_range_Finite) (auto dest!: fadd_Finite fneg_Finite)

lemma fdiv_Finite:
  "d \<noteq> 0 \<Longrightarrow> fdiv a (Finite d) = Finite v \<Longrightarrow> \<exists>x. a = Finite x \<and> v = x / d"
  by (cases a) (auto split: if_splits)

lemma fdiv32_Finite:
  "d \<noteq> 0 \<Longrightarrow> fdiv32 a (Finite d) = Finite v \<Longrightarrow> \<exists>x. a = Finite x \<and> v = x / d"
  unfolding fdiv32_def by (drule to_range_Finite) (rule fdiv_Finite)

lemma fsquare_Finite: "fsquare a = Finite v \<Longrightarrow> \<exists>x. a = Finite x \<and> v = x * x"
  unfolding fsquare_def by (auto dest!: fmul32_Finite)






subsection \<open>The time weighting on float32\<close>

lemma lambda_t_f32_Finite:
  assumes "lambda_t_f32 t = Finite l"
  shows "l = lambda_t t"
proof -
  have d1: "\<And>a v. fdiv32 a (Finite (1/10)) = Finite v \<Longrightarrow> \<exists>x. a = Finite x \<and> v = x / (1/10)"
    by (rule fdiv32_Finite) simp
  have d2: "\<And>a v. fdiv32 a (Finite (tmax - tmin)) = Finite v \<Longrightarrow>
      \<exists>x. a = Finite x \<and> v = x / (tmax - tmin)"
    by (rule fdiv32_Finite) (simp add: tmax_def tmin_def)
  have "\<exists>x. f32 t = Finite x"
    using assms unfolding lambda_t_f32_def Let_def
    by (auto dest!: fadd32_Finite fmul32_Finite fsquare_Finite fsub32_Finite d1)
  then have tc: "f32 t = Finite t" using f32_Finite by blast
  show ?thesis
    using assms unfolding lambda_t_f32_def Let_def tc
    by (auto simp: lambda_t_def lambda_early_def lambda_late_def fle_def power2_eq_square
        dest!: fadd32_Finite fmul32_Finite fsquare_Finite fsub32_Finite d1 d2)
qed

lemma f32_bound: "\<bar>v\<bar> \<le> 10 ^ 30 \<Longrightarrow> f32 v = Finite v"
proof -
  assume a: "\<bar>v\<bar> \<le> 10 ^ 30"
  have "(10::real) ^ 30 \<le> flt_max" by (simp add: flt_max_def)
  with a have "\<bar>v\<bar> \<le> flt_max" by linarith
  then show ?thesis by (simp add: f32_def abs_le_iff)
qed

lemma fmul32_bound: "\<bar>a * b\<bar> \<le> 10 ^ 30 \<Longrightarrow> fmul32 (Finite a) (Finite b) = Finite (a * b)"
  by (simp add: fmul32_def to_range_def f32_bound)

lemma fadd32_bound: "\<bar>a + b\<bar> \<le> 10 ^ 30 \<Longrightarrow> fadd32 (Finite a) (Finite b) = Finite (a + b)"
  by (simp add: fadd32_def to_range_def f32_bound)

lemma fsub32_bound: "\<bar>a - b\<bar> \<le> 10 ^ 30 \<Longrightarrow> fsub32 (Finite a) (Finite b) = Finite (a - b)"
  by (simp add: fsub32_def fsub_def to_range_def f32_bound)

lemma fdiv32_bound:
  "b \<noteq> 0 \<Longrightarrow> \<bar>a / b\<bar> \<le> 10 ^ 30 \<Longrightarrow> fdiv32 (Finite a) (Finite b) = Finite (a / b)"
  by (simp add: fdiv32_def to_range_def f32_bound)

lemma fsquare_bound: "\<bar>a * a\<bar> \<le> 10 ^ 30 \<Longrightarrow> fsquare (Finite a) = Finite (a * a)"
  by (simp add: fsquare_def fmul32_bound)

lemma lambda_t_f32_dom:
  assumes "tmin \<le> t" and "t \<le> tmax"
  shows "lambda_t_f32 t = Finite (lambda_t t)"
proof -
  have t: "0 \<le> t" "t \<le> 1" using assms by (simp_all add: tmin_def tmax_def)
  have tc: "f32 t = Finite t" using t by (intro f32_bound) simp
  have s1: "fsub32 (Finite t) (Finite tmin) = Finite (t - tmin)"
    using t by (intro fsub32_bound) (simp add: tmin_def)
  have e2: "fdiv32 (Finite (t - tmin)) (Finite (1/10)) = Finite ((t - tmin) / (1/10))"
    using t by (intro fdiv32_bound) (simp_all add: tmin_def)
  have l2: "fdiv32 (Finite (t - tmin)) (Finite (tmax - tmin)) = Finite ((t - tmin) / (tmax - tmin))"
    using t by (intro fdiv32_bound) (simp_all add: tmin_def tmax_def)
  define a where "a = 1 - (t - tmin) / (1/10)"
  define b where "b = 1 - (t - tmin) / (tmax - tmin)"
  have a: "\<bar>a\<bar> \<le> 9" using t by (simp add: a_def tmin_def)
  have b: "\<bar>b\<bar> \<le> 1" using t by (simp add: b_def tmin_def tmax_def)
  have aa: "\<bar>a * a\<bar> \<le> 81" using mult_mono[of "\<bar>a\<bar>" 9 "\<bar>a\<bar>" 9] a by (simp add: abs_mult)
  have bb: "\<bar>b * b\<bar> \<le> 1" using mult_mono[of "\<bar>b\<bar>" 1 "\<bar>b\<bar>" 1] b by (simp add: abs_mult)
  have e3: "fsub32 (Finite 1) (Finite ((t - tmin) / (1/10))) = Finite a"
    unfolding a_def using a by (intro fsub32_bound) (simp add: a_def)
  have l3: "fsub32 (Finite 1) (Finite ((t - tmin) / (tmax - tmin))) = Finite b"
    unfolding b_def using b by (intro fsub32_bound) (simp add: b_def)
  have e4: "fsquare (Finite a) = Finite (a * a)" using aa by (intro fsquare_bound) simp
  have l4: "fsquare (Finite b) = Finite (b * b)" using bb by (intro fsquare_bound) simp
  have e5: "fmul32 (Finite 200) (Finite (a * a)) = Finite (200 * (a * a))"
    using aa by (intro fmul32_bound) simp
  have l5: "fmul32 (Finite 20) (Finite (b * b)) = Finite (20 * (b * b))"
    using bb by (intro fmul32_bound) simp
  have e6: "fadd32 (Finite (200 * (a * a))) (Finite 1) = Finite (200 * (a * a) + 1)"
    using aa by (intro fadd32_bound) simp
  have l6: "fadd32 (Finite (20 * (b * b))) (Finite 1) = Finite (20 * (b * b) + 1)"
    using bb by (intro fadd32_bound) simp
  have e7: "fmul32 (Finite (200 * (a * a) + 1)) (Finite (of_bool p)) =
      Finite ((200 * (a * a) + 1) * of_bool p)" for p
    using aa by (intro fmul32_bound) (cases p; simp)
  have l7: "fmul32 (Finite (20 * (b * b) + 1)) (Finite (of_bool p)) =
      Finite ((20 * (b * b) + 1) * of_bool p)" for p
    using bb by (intro fmul32_bound) (cases p; simp)
  have s8: "fadd32 (Finite ((200 * (a * a) + 1) * of_bool p)) (Finite ((20 * (b * b) + 1) * of_bool q)) =
      Finite ((200 * (a * a) + 1) * of_bool p + (20 * (b * b) + 1) * of_bool q)" for p q
    using aa bb by (intro fadd32_bound) (cases p; cases q; simp)
  have "lambda_t_f32 t = Finite ((200 * (a * a) + 1) * of_bool (fle (Finite t) (Finite (1/10)))
      + (20 * (b * b) + 1) * of_bool (fless (Finite (1/10)) (Finite t)))"
    unfolding lambda_t_f32_def Let_def tc s1 e2 l2 e3 l3 e4 l4 e5 l5 e6 l6 e7 l7 s8 ..
  also have "\<dots> = Finite (lambda_t t)"
    by (simp add: lambda_t_def lambda_early_def lambda_late_def a_def b_def power2_eq_square
        fle_def)
  finally show ?thesis .
qed

lemma masks_exclusive:
  "of_bool (fle (f32 t) (Finite c)) + of_bool (fless (Finite c) (f32 t)) = (1::real)"
  by (auto simp: f32_def fle_def)

subsection \<open>Closed form\<close>

lemma pde_residual_f32_pw:
  assumes "pointwise u g" and "length x = length t"
  shows "pde_residual_2d_darcy_f32 (t0 xb) x t u =
         Inr (map2 (residual_point_f32 g) x t, map (\<lambda>xi. fsub32 (f32 (g xi tmin)) (Finite 0)) xb)"
proof -
  have z: "map (\<lambda>(a, b, c). fsub32 (f32 a) (fmul32 (Finite (1/10)) (fadd32 (fneg (f32 b)) (f32 c))))
        (zip (map2 (partial_t g) x t)
          (zip (map2 (partial_x g) x t) (map2 (partial_x (partial_x g)) x t)))
      = map2 (residual_point_f32 g) x t"
    using assms(2) by (intro nth_equalityI) (simp_all add: residual_point_f32_def)
  have c: "concat (map (\<lambda>x. [g x tmin]) xb) = map (\<lambda>x. g x tmin) xb"
    by (induction xb) simp_all
  show ?thesis
    unfolding pde_residual_2d_darcy_f32_def Let_def
    by (simp only: ic_pw[OF assms(1)] u_t_pw[OF assms] u_x_pw[OF assms] u_xx_pw[OF assms]
        sum.case z c) (simp add: comp_def)
qed

lemma loss_fun_wf:
  assumes "wf_params prms"
  shows "loss_fun (t0 xb) prms colloc =
     Inr (fadd32
       (jnp_mean (map (\<lambda>(x, t). fmul32 (lambda_t_f32 t) (fsquare (residual_point_f32 (u_point prms) x t)))
           colloc))
       (fmul32 (Finite 100)
         (jnp_mean (map (\<lambda>xi. fsquare (fsub32 (f32 (u_point prms xi tmin)) (Finite 0))) xb))))"
proof -
  have a: "map2 (\<lambda>l r. fmul32 l (fsquare r)) (map lambda_t_f32 (map snd colloc))
             (map2 (residual_point_f32 (u_point prms)) (map fst colloc) (map snd colloc))
         = map (\<lambda>(x, t). fmul32 (lambda_t_f32 t) (fsquare (residual_point_f32 (u_point prms) x t)))
           colloc"
    by (intro nth_equalityI) (simp_all add: split_def)
  have b: "map fsquare (map (\<lambda>xi. fsub32 (f32 (u_point prms xi tmin)) (Finite 0)) xb)
      = map (\<lambda>xi. fsquare (fsub32 (f32 (u_point prms xi tmin)) (Finite 0))) xb"
    by simp
  have p: "pde_residual_2d_darcy_f32 (t0 xb) (map fst colloc) (map snd colloc)
            (\<lambda>x t. neural_net_with_hard_constraint prms x t) =
         Inr (map2 (residual_point_f32 (u_point prms)) (map fst colloc) (map snd colloc),
              map (\<lambda>xi. fsub32 (f32 (u_point prms xi tmin)) (Finite 0)) xb)"
    by (rule pde_residual_f32_pw[OF forward_pointwise[OF assms]]) simp
  show ?thesis
    unfolding loss_fun_def Let_def
    by (simp only: p sum.case prod.case a b)
qed


subsection \<open>The sign of the loss\<close>

lemma f32_nonneg: "0 \<le> v \<Longrightarrow> nonneg_f (f32 v)"
  using flt_max_pos by (simp add: f32_def)

lemma to_range_nonneg: "nonneg_f p \<Longrightarrow> nonneg_f (to_range p)"
  by (cases p) (simp_all add: to_range_def f32_nonneg)

lemma to_range_nn: "p = NaN \<or> nonneg_f p \<Longrightarrow> to_range p = NaN \<or> nonneg_f (to_range p)"
  using to_range_nonneg by (auto simp: to_range_def)

lemma fadd_nn:
  "a = NaN \<or> nonneg_f a \<Longrightarrow> b = NaN \<or> nonneg_f b \<Longrightarrow> fadd a b = NaN \<or> nonneg_f (fadd a b)"
  by (cases a; cases b) auto

lemma fmul_nn:
  "a = NaN \<or> nonneg_f a \<Longrightarrow> b = NaN \<or> nonneg_f b \<Longrightarrow> fmul a b = NaN \<or> nonneg_f (fmul a b)"
  by (cases a; cases b) auto

lemma fmul_self_nn: "fmul r r = NaN \<or> nonneg_f (fmul r r)"
  by (cases r) auto

lemma fadd32_nn:
  "a = NaN \<or> nonneg_f a \<Longrightarrow> b = NaN \<or> nonneg_f b \<Longrightarrow> fadd32 a b = NaN \<or> nonneg_f (fadd32 a b)"
  unfolding fadd32_def by (intro to_range_nn fadd_nn)

lemma fmul32_nn:
  "a = NaN \<or> nonneg_f a \<Longrightarrow> b = NaN \<or> nonneg_f b \<Longrightarrow> fmul32 a b = NaN \<or> nonneg_f (fmul32 a b)"
  unfolding fmul32_def by (intro to_range_nn fmul_nn)

lemma fsquare_nn: "fsquare r = NaN \<or> nonneg_f (fsquare r)"
  unfolding fsquare_def fmul32_def by (intro to_range_nn fmul_self_nn)

lemma lambda_t_f32_nn: "lambda_t_f32 t = NaN \<or> nonneg_f (lambda_t_f32 t)"
proof -
  have m: "Finite (of_bool p) = NaN \<or> nonneg_f (Finite (of_bool p))" for p by simp
  have c: "Finite 200 = NaN \<or> nonneg_f (Finite 200)" "Finite 20 = NaN \<or> nonneg_f (Finite 20)"
    "Finite 1 = NaN \<or> nonneg_f (Finite 1)" by simp_all
  show ?thesis
    unfolding lambda_t_f32_def Let_def
    by (intro fadd32_nn fmul32_nn fsquare_nn m c)
qed

lemma lambda_t_f32_ge1: "lambda_t_f32 t = NaN \<or> fle (Finite 1) (lambda_t_f32 t)"
proof (cases "lambda_t_f32 t")
  case (Finite l)
  then show ?thesis using lambda_t_f32_Finite[OF Finite] lambda_t_ge1[of t] by (auto simp: fle_def)
next
  case NegInf
  then show ?thesis using lambda_t_f32_nn[of t] by simp
qed (simp_all add: fle_def)

lemma foldl_fadd32_nn:
  "a = NaN \<or> nonneg_f a \<Longrightarrow> (\<forall>x \<in> set xs. x = NaN \<or> nonneg_f x) \<Longrightarrow>
   foldl fadd32 a xs = NaN \<or> nonneg_f (foldl fadd32 a xs)"
proof (induction xs arbitrary: a)
  case Nil
  then show ?case by simp
next
  case (Cons x xs)
  have "fadd32 a x = NaN \<or> nonneg_f (fadd32 a x)"
    using Cons.prems by (intro fadd32_nn) simp_all
  from Cons.IH[OF this] Cons.prems(2) show ?case by simp
qed

lemma jnp_mean_nn:
  assumes "\<forall>x \<in> set xs. x = NaN \<or> nonneg_f x"
  shows "jnp_mean xs = NaN \<or> nonneg_f (jnp_mean xs)"
proof -
  have "foldl fadd32 (Finite 0) xs = NaN \<or> nonneg_f (foldl fadd32 (Finite 0) xs)"
    using assms by (intro foldl_fadd32_nn) simp_all
  then show ?thesis
    by (cases "foldl fadd32 (Finite 0) xs") (auto simp: jnp_mean_def)
qed

lemma loss_fun_nn:
  assumes "loss_fun t0_pts prms colloc = Inr L"
  shows "L = NaN \<or> nonneg_f L"
proof -
  from assms obtain res ic where
    L: "L = fadd32
          (jnp_mean (map2 (\<lambda>l r. fmul32 l (fsquare r)) (map lambda_t_f32 (map snd colloc)) res))
          (fmul32 (Finite 100) (jnp_mean (map fsquare ic)))"
    by (auto simp: loss_fun_def Let_def split: sum.splits prod.splits)
  have 1: "jnp_mean (map2 (\<lambda>l r. fmul32 l (fsquare r)) (map lambda_t_f32 (map snd colloc)) res) = NaN
       \<or> nonneg_f (jnp_mean (map2 (\<lambda>l r. fmul32 l (fsquare r)) (map lambda_t_f32 (map snd colloc)) res))"
  proof (rule jnp_mean_nn, rule ballI)
    fix v assume "v \<in> set (map2 (\<lambda>l r. fmul32 l (fsquare r)) (map lambda_t_f32 (map snd colloc)) res)"
    then obtain l r where v: "v = fmul32 l (fsquare r)"
      and "l \<in> set (map lambda_t_f32 (map snd colloc))"
      by (auto dest: set_zip_leftD)
    then obtain t where "l = lambda_t_f32 t" by auto
    then have "l = NaN \<or> nonneg_f l" by (simp add: lambda_t_f32_nn)
    then show "v = NaN \<or> nonneg_f v"
      unfolding v by (intro fmul32_nn fsquare_nn)
  qed
  have 2: "jnp_mean (map fsquare ic) = NaN \<or> nonneg_f (jnp_mean (map fsquare ic))"
    by (rule jnp_mean_nn) (auto simp: fsquare_nn)
  show ?thesis
    unfolding L by (intro fadd32_nn fmul32_nn 1 2) simp
qed

text \<open>Without a NaN among the residuals\<close>

lemma fadd_nonneg: "nonneg_f a \<Longrightarrow> nonneg_f b \<Longrightarrow> nonneg_f (fadd a b)"
  by (cases a; cases b) auto

lemma fmul_self_nonneg: "r \<noteq> NaN \<Longrightarrow> nonneg_f (fmul r r)"
  by (cases r) auto

lemma fmul_pos_nonneg: "0 < l \<Longrightarrow> nonneg_f a \<Longrightarrow> nonneg_f (fmul (Finite l) a)"
  by (cases a) auto

lemma foldl_fadd32_nonneg:
  "nonneg_f a \<Longrightarrow> (\<forall>x \<in> set xs. nonneg_f x) \<Longrightarrow> nonneg_f (foldl fadd32 a xs)"
proof (induction xs arbitrary: a)
  case Nil
  then show ?case by simp
next
  case (Cons x xs)
  have "nonneg_f (fadd32 a x)"
    unfolding fadd32_def using Cons.prems by (intro to_range_nonneg fadd_nonneg) simp_all
  from Cons.IH[OF this] Cons.prems(2) show ?case by simp
qed

lemma jnp_mean_nonneg:
  assumes "xs \<noteq> []" and "\<forall>x \<in> set xs. nonneg_f x"
  shows "nonneg_f (jnp_mean xs)"
proof -
  have "nonneg_f (foldl fadd32 (Finite 0) xs)"
    using assms(2) by (intro foldl_fadd32_nonneg) simp_all
  then show ?thesis
    using assms(1) by (cases "foldl fadd32 (Finite 0) xs") (auto simp: jnp_mean_def)
qed

lemma jax_grad0_length: "jax_grad0 f x t = Inr g \<Longrightarrow> length g = length x"
  by (auto simp: jax_grad0_def split: sum.splits)

lemma jax_grad1_length: "jax_grad1 f x t = Inr g \<Longrightarrow> length g = length t"
  by (auto simp: jax_grad1_def split: sum.splits)

lemma pde_residual_f32_length:
  assumes "pde_residual_2d_darcy_f32 t0_pts x t u = Inr (res, ic)" and "length x = length t"
  shows "length res = length x"
  using assms
  by (auto simp: pde_residual_2d_darcy_f32_def Let_def split: sum.splits
      dest!: jax_grad0_length jax_grad1_length)

lemma loss_fun_nonneg:
  assumes r: "pde_residual_2d_darcy_f32 t0_pts (map fst colloc) (map snd colloc)
                (\<lambda>x t. neural_net_with_hard_constraint prms x t) = Inr (res, ic)"
    and nan: "NaN \<notin> set res" "NaN \<notin> set ic"
    and ne: "colloc \<noteq> []" "ic \<noteq> []"
    and dom: "\<forall>p \<in> set colloc. tmin \<le> snd p \<and> snd p \<le> tmax"
  shows "\<exists>L. loss_fun t0_pts prms colloc = Inr L \<and> nonneg_f L"
proof -
  let ?terms = "map2 (\<lambda>l r. fmul32 l (fsquare r)) (map lambda_t_f32 (map snd colloc)) res"
  have L: "loss_fun t0_pts prms colloc =
      Inr (fadd32 (jnp_mean ?terms) (fmul32 (Finite 100) (jnp_mean (map fsquare ic))))"
    by (simp add: loss_fun_def Let_def r)
  have len: "length res = length colloc"
    using pde_residual_f32_length[OF r] by simp
  have tne: "?terms \<noteq> []" using len ne(1) by (cases colloc; cases res) simp_all
  have 1: "nonneg_f (jnp_mean ?terms)"
  proof (rule jnp_mean_nonneg[OF tne], rule ballI)
    fix v assume "v \<in> set ?terms"
    then obtain l q where v: "v = fmul32 l (fsquare q)"
      and lq: "(l, q) \<in> set (zip (map lambda_t_f32 (map snd colloc)) res)"
      by auto
    have l: "l \<in> set (map lambda_t_f32 (map snd colloc))" and q: "q \<in> set res"
      using lq by (auto dest: set_zip_leftD set_zip_rightD)
    from l obtain p where p: "p \<in> set colloc" "l = lambda_t_f32 (snd p)" by auto
    then have lf: "l = Finite (lambda_t (snd p))" using dom by (simp add: lambda_t_f32_dom)
    have "q \<noteq> NaN" using q nan(1) by auto
    then have "nonneg_f (fsquare q)"
      unfolding fsquare_def fmul32_def by (intro to_range_nonneg fmul_self_nonneg)
    then show "nonneg_f v"
      unfolding v lf fmul32_def[of "Finite (lambda_t (snd p))"]
      using lambda_t_ge1[of "snd p"] by (intro to_range_nonneg fmul_pos_nonneg) simp_all
  qed
  have 2: "nonneg_f (jnp_mean (map fsquare ic))"
  proof (rule jnp_mean_nonneg)
    show "map fsquare ic \<noteq> []" using ne(2) by simp
    show "\<forall>x \<in> set (map fsquare ic). nonneg_f x"
    proof
      fix x assume "x \<in> set (map fsquare ic)"
      then obtain v where "v \<in> set ic" "x = fsquare v" by auto
      then show "nonneg_f x"
        using nan(2) unfolding fsquare_def fmul32_def
        by (auto intro!: to_range_nonneg fmul_self_nonneg)
    qed
  qed
  have "nonneg_f (fadd32 (jnp_mean ?terms) (fmul32 (Finite 100) (jnp_mean (map fsquare ic))))"
    unfolding fadd32_def fmul32_def[of "Finite 100"]
    by (intro to_range_nonneg fadd_nonneg fmul_pos_nonneg 1 2) simp
  with L show ?thesis by blast
qed

subsection \<open>A two-point batch, evaluated\<close>

lemma example_residual_f32:
  "residual_point_f32 (u_point [\<lparr>W = [[2], [3]], B = [1]\<rparr>]) (1/2) (1/3) = Finite (7/5)"
  "residual_point_f32 (u_point [\<lparr>W = [[2], [3]], B = [1]\<rparr>]) (1/4) (1/20) = Finite (93/200)"
  by (simp_all add: residual_point_f32_def example_partial_x example_partial_xx example_partial_t
      f32_bound fsub32_bound fmul32_bound fadd32_bound)

lemma example_ic_f32:
  "fsub32 (f32 (u_point [\<lparr>W = [[2], [3]], B = [1]\<rparr>] (1/4) tmin)) (Finite 0) = Finite (9/8)"
  "fsub32 (f32 (u_point [\<lparr>W = [[2], [3]], B = [1]\<rparr>] (1/2) tmin)) (Finite 0) = Finite (3/2)"
  by (simp_all add: example_u_point tmin_def power2_eq_square f32_bound fsub32_bound)

lemma example_lambda_f32:
  "lambda_t_f32 (1/3) = Finite (89/9)" "lambda_t_f32 (1/20) = Finite 51"
  by (simp_all add: lambda_t_f32_dom lambda_t_def lambda_early_def lambda_late_def tmin_def
      tmax_def power2_eq_square)

lemma example_residual_columns:
  "pde_residual_2d_darcy_f32 (t0 [1/4, 1/2]) (map fst ([(1/2, 1/3), (1/4, 1/20)] :: point list))
     (map snd ([(1/2, 1/3), (1/4, 1/20)] :: point list))
     (\<lambda>x t. neural_net_with_hard_constraint [\<lparr>W = [[2], [3]], B = [1]\<rparr>] x t) =
   Inr ([Finite (7/5), Finite (93/200)], [Finite (9/8), Finite (3/2)])"
  by (simp add: pde_residual_f32_pw[OF forward_pointwise[OF example_wf]]
      example_residual_f32 example_ic_f32)

lemma jnp_mean_two:
  "jnp_mean [a, b] =
     (case fadd32 (fadd32 (Finite 0) a) b of Finite s \<Rightarrow> Finite (s / 2) | p \<Rightarrow> p)"
  by (cases "fadd32 (fadd32 (Finite 0) a) b") (simp_all add: jnp_mean_def)

lemma example_pde_loss:
  "jnp_mean [fmul32 (Finite (89/9)) (fsquare (Finite (7/5))),
             fmul32 (Finite 51) (fsquare (Finite (93/200)))]
   = Finite ((4361/225 + 441099/40000) / 2)"
  by (simp add: jnp_mean_two fsquare_bound fmul32_bound fadd32_bound)

lemma example_ic_loss:
  "jnp_mean [fsquare (Finite (9/8)), fsquare (Finite (3/2))] = Finite ((81/64 + 9/4) / 2)"
  by (simp add: jnp_mean_two fsquare_bound fadd32_bound)

lemma example_loss:
  "loss_fun (t0 [1/4, 1/2]) [\<lparr>W = [[2], [3]], B = [1]\<rparr>] [(1/2, 1/3), (1/4, 1/20)] =
   Inr (Finite ((4361/225 + 441099/40000) / 2 + 100 * ((81/64 + 9/4) / 2)))"
proof -
  have "loss_fun (t0 [1/4, 1/2]) [\<lparr>W = [[2], [3]], B = [1]\<rparr>] [(1/2, 1/3), (1/4, 1/20)] =
    Inr (fadd32 (Finite ((4361/225 + 441099/40000) / 2))
                (fmul32 (Finite 100) (Finite ((81/64 + 9/4) / 2))))"
    by (simp only: loss_fun_wf[OF example_wf] list.map prod.case example_residual_f32
        example_ic_f32 example_lambda_f32 example_pde_loss example_ic_loss)
  also have "\<dots> = Inr (Finite ((4361/225 + 441099/40000) / 2 + 100 * ((81/64 + 9/4) / 2)))"
    by (simp add: fmul32_bound fadd32_bound)
  finally show ?thesis .
qed

subsection \<open>Finite parameters whose derivatives leave the float32 range\<close>

lemma single_wf: "wf_params [\<lparr>W = [[w], [0]], B = [0]\<rparr>]"
  by (simp add: wf_params_def layer_ok_def)

lemma single_u_point:
  "u_point [\<lparr>W = [[w], [0]], B = [0]\<rparr>] a b = w * a\<^sup>2 + 1 - a"
  by (simp add: u_point_def base_point_def dense_def vecmat_def ncols_def power2_eq_square
      algebra_simps)

lemma single_partial_x:
  "partial_x (u_point [\<lparr>W = [[w], [0]], B = [0]\<rparr>]) a b = 2 * w * a - 1"
  by (rule partial_x_eq) (auto simp: single_u_point intro!: derivative_eq_intros)

lemma single_partial_xx:
  "partial_x (partial_x (u_point [\<lparr>W = [[w], [0]], B = [0]\<rparr>])) a b = 2 * w"
  by (rule partial_x_eq) (auto simp: single_partial_x intro!: derivative_eq_intros)

lemma single_partial_t:
  "partial_t (u_point [\<lparr>W = [[w], [0]], B = [0]\<rparr>]) a b = 0"
  by (rule partial_t_eq) (auto simp: single_u_point intro!: derivative_eq_intros)

lemma overflow_derivatives:
  "f32 (partial_x (u_point [\<lparr>W = [[3 * 10 ^ 38], [0]], B = [0]\<rparr>]) (9/10) (1/2)) = PosInf"
  "f32 (partial_x (partial_x (u_point [\<lparr>W = [[3 * 10 ^ 38], [0]], B = [0]\<rparr>])) (9/10) (1/2)) = PosInf"
  "f32 (partial_t (u_point [\<lparr>W = [[3 * 10 ^ 38], [0]], B = [0]\<rparr>]) (9/10) (1/2)) = Finite 0"
  by (simp_all add: single_partial_x single_partial_xx single_partial_t f32_def flt_max_def)

lemma fmul32_NaN: "fmul32 NaN x = NaN" "fmul32 x NaN = NaN"
  by (cases x; simp add: fmul32_def to_range_def)+

lemma fadd32_NaN: "fadd32 NaN x = NaN" "fadd32 x NaN = NaN"
  by (cases x; simp add: fadd32_def to_range_def)+

lemma fsub32_NaN: "fsub32 NaN x = NaN" "fsub32 x NaN = NaN"
  by (cases x; simp add: fsub32_def fsub_def to_range_def)+

lemma fsquare_NaN: "fsquare NaN = NaN"
  by (simp add: fsquare_def fmul32_NaN)

lemma jnp_mean_NaN: "jnp_mean [NaN] = NaN"
  by (simp add: jnp_mean_def fadd32_NaN)

lemma inf_minus_inf: "fadd32 (fneg PosInf) PosInf = NaN"
  by (simp add: fadd32_def to_range_def)

lemma overflow_residual:
  "residual_point_f32 (u_point [\<lparr>W = [[3 * 10 ^ 38], [0]], B = [0]\<rparr>]) (9/10) (1/2) = NaN"
  by (simp only: residual_point_f32_def overflow_derivatives inf_minus_inf fmul32_NaN fsub32_NaN)

lemma overflow_loss:
  "loss_fun (t0 [1/4]) [\<lparr>W = [[3 * 10 ^ 38], [0]], B = [0]\<rparr>] [(9/10, 1/2)] = Inr NaN"
  by (simp only: loss_fun_wf[OF single_wf] list.map prod.case overflow_residual fsquare_NaN
      fmul32_NaN jnp_mean_NaN fadd32_NaN)

text \<open>Outside the domain the weighting itself can be NaN: an overflowed, masked-out summand.\<close>

lemma lambda_nan_example: "lambda_t_f32 (10 ^ 20) = NaN"
proof -
  have tc: "f32 (10 ^ 20) = Finite (10 ^ 20)" by (intro f32_bound) simp
  have s1: "fsub32 (Finite (10 ^ 20)) (Finite tmin) = Finite (10 ^ 20)"
    by (simp add: tmin_def fsub32_bound)
  have e2: "fdiv32 (Finite (10 ^ 20)) (Finite (1/10)) = Finite (10 ^ 21)"
    by (simp add: fdiv32_bound)
  have e3: "fsub32 (Finite 1) (Finite (10 ^ 21)) = Finite (1 - 10 ^ 21)"
    by (intro fsub32_bound) simp
  have e4: "fsquare (Finite (1 - 10 ^ 21)) = PosInf"
    by (simp add: fsquare_def fmul32_def to_range_def f32_def flt_max_def)
  have e5: "fmul32 (Finite 200) PosInf = PosInf" by (simp add: fmul32_def to_range_def)
  have e6: "fadd32 PosInf (Finite 1) = PosInf" by (simp add: fadd32_def to_range_def)
  have m: "fle (Finite (10 ^ 20)) (Finite (1/10)) = False" by (simp add: fle_def)
  have e7: "fmul32 PosInf (Finite (of_bool False)) = NaN" by (simp add: fmul32_def to_range_def)
  show ?thesis
    unfolding lambda_t_f32_def Let_def tc s1 e2 e3 e4 e5 e6 m e7 by (rule fadd32_NaN)
qed

subsection \<open>The loss assembler and the sign of the loss\<close>



text \<open>
  C10, as the code has it. On float32 the weighting at a batch entry \<open>t\<close> is NaN or at least 1,
  and for \<open>t\<close> in \<open>[t_min, t_max]\<close> it is the number \<open>\<lambda>(t) \<ge> 1\<close>; exactly one of
  the two masks is 1. The loss \<^verbatim>\<open>loss_fun\<close> returns is never negative: it is NaN, or
  at least 0 (possibly plus infinity). It is at least 0 whenever no entry of the
  two residual columns is NaN, batch and initial set are not empty and the batch
  times lie in \<open>[t_min, t_max]\<close>. On every well-shaped parameter set a loss is
  returned.
\<close>

theorem loss_never_negative:
  "(\<forall>t. lambda_t_f32 t = NaN \<or> fle (Finite 1) (lambda_t_f32 t)) \<and>
   (\<forall>t. tmin \<le> t \<and> t \<le> tmax \<longrightarrow> lambda_t_f32 t = Finite (lambda_t t) \<and> 1 \<le> lambda_t t) \<and>
   (\<forall>t. of_bool (fle (f32 t) (Finite (1/10))) + of_bool (fless (Finite (1/10)) (f32 t)) = (1::real)) \<and>
   (loss_fun t0_pts prms colloc = Inr L \<longrightarrow> L = NaN \<or> fle (Finite 0) L) \<and>
   (pde_residual_2d_darcy_f32 t0_pts (map fst colloc) (map snd colloc)
        (\<lambda>x t. neural_net_with_hard_constraint prms x t) = Inr (res, ic) \<and>
      NaN \<notin> set res \<and> NaN \<notin> set ic \<and> colloc \<noteq> [] \<and> ic \<noteq> [] \<and>
      (\<forall>p \<in> set colloc. tmin \<le> snd p \<and> snd p \<le> tmax) \<longrightarrow>
      (\<exists>L'. loss_fun t0_pts prms colloc = Inr L' \<and> fle (Finite 0) L')) \<and>
   (wf_params prms \<longrightarrow> (\<exists>L'. loss_fun (t0 xb) prms colloc = Inr L'))"
proof (intro conjI impI allI)
  show "\<And>t. lambda_t_f32 t = NaN \<or> fle (Finite 1) (lambda_t_f32 t)" by (rule lambda_t_f32_ge1)
  show "lambda_t_f32 t = Finite (lambda_t t)" if "tmin \<le> t \<and> t \<le> tmax" for t
    using that by (simp add: lambda_t_f32_dom)
  show "\<And>t. 1 \<le> lambda_t t" by (rule lambda_t_ge1)
  show "\<And>t. of_bool (fle (f32 t) (Finite (1/10))) + of_bool (fless (Finite (1/10)) (f32 t)) = (1::real)"
    by (rule masks_exclusive)
  show "L = NaN \<or> fle (Finite 0) L" if "loss_fun t0_pts prms colloc = Inr L"
    using loss_fun_nn[OF that] by (simp add: nonneg_f_iff)
  show "\<exists>L'. loss_fun t0_pts prms colloc = Inr L' \<and> fle (Finite 0) L'"
    if "pde_residual_2d_darcy_f32 t0_pts (map fst colloc) (map snd colloc)
        (\<lambda>x t. neural_net_with_hard_constraint prms x t) = Inr (res, ic) \<and>
      NaN \<notin> set res \<and> NaN \<notin> set ic \<and> colloc \<noteq> [] \<and> ic \<noteq> [] \<and>
      (\<forall>p \<in> set colloc. tmin \<le> snd p \<and> snd p \<le> tmax)"
    using loss_fun_nonneg[of t0_pts colloc prms res ic] that by (simp add: nonneg_f_iff)
  show "\<exists>L'. loss_fun (t0 xb) prms colloc = Inr L'" if "wf_params prms"
    by (simp add: loss_fun_wf[OF that])
qed

theorem loss_never_negative_witness:
  "loss_fun (t0 [1/4, 1/2]) [\<lparr>W = [[2], [3]], B = [1]\<rparr>] [(1/2, 1/3), (1/4, 1/20)] =
     Inr (Finite ((4361/225 + 441099/40000) / 2 + 100 * ((81/64 + 9/4) / 2))) \<and>
   pde_residual_2d_darcy_f32 (t0 [1/4, 1/2]) (map fst ([(1/2, 1/3), (1/4, 1/20)] :: point list))
     (map snd ([(1/2, 1/3), (1/4, 1/20)] :: point list))
     (\<lambda>x t. neural_net_with_hard_constraint [\<lparr>W = [[2], [3]], B = [1]\<rparr>] x t) =
     Inr ([Finite (7/5), Finite (93/200)], [Finite (9/8), Finite (3/2)]) \<and>
   NaN \<notin> set [Finite (7/5), Finite (93/200)] \<and> NaN \<notin> set [Finite (9/8), Finite (3/2)] \<and>
   tmin \<le> 1/3 \<and> 1/3 \<le> tmax \<and> tmin \<le> 1/20 \<and> 1/20 \<le> tmax \<and>
   wf_params [\<lparr>W = [[2], [3]], B = [1]\<rparr>] \<and>
   fle (Finite 0) (Finite ((4361/225 + 441099/40000) / 2 + 100 * ((81/64 + 9/4) / 2))) \<and>
   lambda_t_f32 (1/3) = Finite (lambda_t (1/3)) \<and> 1 \<le> lambda_t (1/3) \<and>
   fle (Finite 1) (lambda_t_f32 (1/3))"
proof -
  let ?p = "[\<lparr>W = [[2], [3]], B = [1]\<rparr>]"
  let ?c = "[(1/2, 1/3), (1/4, 1/20)] :: point list"
  let ?L = "Finite ((4361/225 + 441099/40000) / 2 + 100 * ((81/64 + 9/4) / 2))"
  note T = loss_never_negative [where ?t0_pts = "t0 [1/4, 1/2]" and prms = ?p and colloc = ?c
      and L = ?L and res = "[Finite (7/5), Finite (93/200)]"
      and ic = "[Finite (9/8), Finite (3/2)]" and xb = "[1/4, 1/2]"]
  have 1: "loss_fun (t0 [1/4, 1/2]) ?p ?c = Inr ?L" by (rule example_loss)
  have 2: "pde_residual_2d_darcy_f32 (t0 [1/4, 1/2]) (map fst ?c) (map snd ?c)
     (\<lambda>x t. neural_net_with_hard_constraint ?p x t) =
     Inr ([Finite (7/5), Finite (93/200)], [Finite (9/8), Finite (3/2)])"
    by (rule example_residual_columns)
  have 3: "NaN \<notin> set [Finite (7/5), Finite (93/200)]" "NaN \<notin> set [Finite (9/8), Finite (3/2)]"
    by simp_all
  have 4: "tmin \<le> 1/3" "1/3 \<le> tmax" "tmin \<le> 1/20" "1/20 \<le> tmax"
    by (simp_all add: tmin_def tmax_def)
  have 5: "wf_params ?p" by (rule example_wf)
  have 6: "fle (Finite 0) ?L" using T 1 by blast
  have 7: "lambda_t_f32 (1/3) = Finite (lambda_t (1/3))" "1 \<le> lambda_t (1/3)"
    using T 4 by blast+
  have 8: "fle (Finite 1) (lambda_t_f32 (1/3))" using T 7(1) by (metis pyfloat.distinct(3))
  show ?thesis by (intro conjI 1 2 3 4 5 6 7 8)
qed

text \<open>
  C10, as stated: non-negative for every finite parameter set. A finite,
  well-shaped parameter set (one layer, weights
  \<open>3 * 10\<^sup>3\<^sup>8\<close> and 0, bias 0) and the batch point \<open>(0.9, 0.5)\<close>: \<open>u\<^sub>x\<close> and
  \<open>u\<^sub>x\<^sub>x\<close> exceed the float32 range, \<open>-u\<^sub>x + u\<^sub>x\<^sub>x\<close> is \<open>-inf + inf\<close>, and the loss
  is NaN, which is not at least 0.
\<close>

theorem loss_nan_counterexample:
  "wf_params [\<lparr>W = [[3 * 10 ^ 38], [0]], B = [0]\<rparr>] \<and>
   f32 (3 * 10 ^ 38) = Finite (3 * 10 ^ 38) \<and>
   ([(9/10, 1/2)] :: point list) \<noteq> [] \<and>
   residual_point_f32 (u_point [\<lparr>W = [[3 * 10 ^ 38], [0]], B = [0]\<rparr>]) (9/10) (1/2) = NaN \<and>
   loss_fun (t0 [1/4]) [\<lparr>W = [[3 * 10 ^ 38], [0]], B = [0]\<rparr>] [(9/10, 1/2)] = Inr NaN \<and>
   \<not> fle (Finite 0) NaN"
proof -
  have 1: "wf_params [\<lparr>W = [[3 * 10 ^ 38], [0]], B = [0]\<rparr>]" by (rule single_wf)
  have 2: "f32 (3 * 10 ^ 38) = Finite (3 * 10 ^ 38)" by (simp add: f32_def flt_max_def)
  have 3: "([(9/10, 1/2)] :: point list) \<noteq> []" by simp
  have 4: "\<not> fle (Finite 0) NaN" by (simp add: fle_def)
  show ?thesis by (intro conjI 1 2 3 4 overflow_residual overflow_loss)
qed

subsection \<open>Float comparison\<close>

lemma fle_refl: "fle a a"
  by (simp add: fle_def)

lemma fless_trans: "fless a b \<Longrightarrow> fless b c \<Longrightarrow> fless a c"
  by (cases a; cases b; cases c) auto

lemma fle_trans: "fle a b \<Longrightarrow> fle b c \<Longrightarrow> fle a c"
  by (auto simp: fle_def intro: fless_trans)

subsection \<open>One iteration of each loop\<close>

lemma phaseA_step_snapshot:
  assumes "choice (np_random s) (length colloc) batch_size = (idx, rng')"
    and "upd (opt_state s) (params s) (map (\<lambda>i. colloc ! i) idx) = (o', p', cur)"
  shows "snapshot (phaseA_step upd choice colloc s e) =
          (if fless cur (best_loss s) then (e, cur, p') else snapshot s)"
  using assms by (simp add: phaseA_step_def snapshot_def Let_def)

lemma phaseB_step_snapshot:
  assumes "choice (np_random s) (length colloc) batch_size = (idx, rng')"
    and "upd_lbfgs (params s) (map (\<lambda>i. colloc ! i) idx) = p'"
    and "lossf p' (map (\<lambda>i. colloc ! i) idx) = cur"
  shows "snapshot (phaseB_step upd_lbfgs lossf choice colloc n_a s e) =
          (if fless cur (best_loss s) then (e + n_a, cur, p') else snapshot s)"
  using assms by (simp add: phaseB_step_def snapshot_def Let_def)

lemma phaseA_step_best_le:
  "fle (best_loss (phaseA_step upd choice colloc s e)) (best_loss s)"
  by (simp add: phaseA_step_def Let_def fle_def split: prod.splits)

lemma phaseB_step_best_le:
  "fle (best_loss (phaseB_step upd_lbfgs lossf choice colloc n_a s e)) (best_loss s)"
  by (simp add: phaseB_step_def Let_def fle_def split: prod.splits)

lemma phaseA_step_len:
  "length (all_losses (phaseA_step upd choice colloc s e)) = Suc (length (all_losses s))"
  by (simp add: phaseA_step_def Let_def split: prod.splits)

lemma phaseB_step_len:
  "length (all_losses (phaseB_step upd_lbfgs lossf choice colloc n_a s e)) =
   Suc (length (all_losses s))"
  by (simp add: phaseB_step_def Let_def split: prod.splits)

lemma phaseA_step_epochs:
  "all_epochs (phaseA_step upd choice colloc s e) = all_epochs s @ [e]"
  by (simp add: phaseA_step_def Let_def split: prod.splits)

lemma phaseB_step_epochs:
  "all_epochs (phaseB_step upd_lbfgs lossf choice colloc n_a s e) = all_epochs s @ [e + n_a]"
  by (simp add: phaseB_step_def Let_def split: prod.splits)

text \<open>
  In the first loop the loss recorded for an epoch is the loss at the parameters
  before that epoch's step (\<^verbatim>\<open>update\<close> returns the value computed by
  \<^verbatim>\<open>value_and_grad\<close> together with the stepped parameters), while the live
  parameters, and the parameters stored as best when that loss improves, are the ones
  after the step.
\<close>

theorem phaseA_loss_before_update:
  assumes "choice (np_random s) (length colloc) batch_size = (idx, rng')"
  shows "last (all_losses (phaseA_step (update value_and_grad optimizer_update apply_updates)
                  choice colloc s e))
           = fst (value_and_grad (params s) (map (\<lambda>i. colloc ! i) idx)) \<and>
         params (phaseA_step (update value_and_grad optimizer_update apply_updates)
                  choice colloc s e)
           = apply_updates (params s)
               (fst (optimizer_update (snd (value_and_grad (params s) (map (\<lambda>i. colloc ! i) idx)))
                  (opt_state s))) \<and>
         (fless (fst (value_and_grad (params s) (map (\<lambda>i. colloc ! i) idx))) (best_loss s) \<longrightarrow>
            best_params (phaseA_step (update value_and_grad optimizer_update apply_updates)
                  choice colloc s e)
              = apply_updates (params s)
               (fst (optimizer_update (snd (value_and_grad (params s) (map (\<lambda>i. colloc ! i) idx)))
                  (opt_state s))))"
  using assms by (simp add: phaseA_step_def update_def Let_def split: prod.splits)

theorem phaseA_loss_before_update_witness:
  "(\<lambda>rng n k. (replicate k (rng mod n), Suc rng)) (np_random (init_state (5::nat) () (0::nat)))
      (length [(0::real, 0::real)]) batch_size = (replicate batch_size 0, 1) \<and>
   last (all_losses (phaseA_step
      (update (\<lambda>prms b. (Finite (real prms), ())) (\<lambda>g opt_st. (1, opt_st)) (\<lambda>prms u. prms + u))
      (\<lambda>rng n k. (replicate k (rng mod n), Suc rng)) [(0, 0)] (init_state 5 () 0) 0)) = Finite 5 \<and>
   params (phaseA_step
      (update (\<lambda>prms b. (Finite (real prms), ())) (\<lambda>g opt_st. (1, opt_st)) (\<lambda>prms u. prms + u))
      (\<lambda>rng n k. (replicate k (rng mod n), Suc rng)) [(0, 0)] (init_state 5 () 0) 0) = 6 \<and>
   best_params (phaseA_step
      (update (\<lambda>prms b. (Finite (real prms), ())) (\<lambda>g opt_st. (1, opt_st)) (\<lambda>prms u. prms + u))
      (\<lambda>rng n k. (replicate k (rng mod n), Suc rng)) [(0, 0)] (init_state 5 () 0) 0) = 6"
  using phaseA_loss_before_update [where
      choice = "\<lambda>rng n k. (replicate k (rng mod n), Suc rng)" and s = "init_state (5::nat) () (0::nat)"
      and colloc = "[(0, 0)]" and idx = "replicate batch_size 0" and rng' = 1
      and value_and_grad = "\<lambda>prms b. (Finite (real prms), ())"
      and optimizer_update = "\<lambda>g opt_st. (1, opt_st)" and apply_updates = "\<lambda>prms u. prms + u"
      and e = 0]
  by (simp add: init_state_def)

subsection \<open>The loops\<close>

lemma fold_len:
  assumes "\<And>s e. length (all_losses (step s e)) = Suc (length (all_losses s))"
  shows "length (all_losses (fold (\<lambda>e s. step s e) es s)) = length (all_losses s) + length es"
  using assms by (induction es arbitrary: s) simp_all

lemma fold_epochs:
  assumes "\<And>s e. all_epochs (step s e) = all_epochs s @ [f e]"
  shows "all_epochs (fold (\<lambda>e s. step s e) es s) = all_epochs s @ map f es"
  using assms by (induction es arbitrary: s) simp_all

lemma phaseA_len:
  "length (all_losses (phaseA upd choice colloc n_a s)) = length (all_losses s) + (n_a + 1)"
  unfolding phaseA_def
  by (subst fold_len[where step="phaseA_step upd choice colloc"])
     (simp_all only: phaseA_step_len length_upt diff_zero)

lemma phaseB_len:
  "length (all_losses (phaseB upd_lbfgs lossf choice colloc n_a n_b s)) =
   length (all_losses s) + (n_b + 1)"
  unfolding phaseB_def
  by (subst fold_len[where step="phaseB_step upd_lbfgs lossf choice colloc n_a"])
     (simp_all only: phaseB_step_len length_upt diff_zero)

lemma phaseA_epochs:
  "all_epochs (phaseA upd choice colloc n_a s) = all_epochs s @ [0..<n_a + 1]"
  unfolding phaseA_def
  by (subst fold_epochs[where step="phaseA_step upd choice colloc" and f="\<lambda>e. e"])
     (simp_all only: phaseA_step_epochs map_ident)

lemma phaseB_epochs:
  "all_epochs (phaseB upd_lbfgs lossf choice colloc n_a n_b s) =
   all_epochs s @ map (\<lambda>e. e + n_a) [0..<n_b + 1]"
  unfolding phaseB_def
  by (subst fold_epochs[where step="phaseB_step upd_lbfgs lossf choice colloc n_a"
        and f="\<lambda>e. e + n_a"])
     (simp_all only: phaseB_step_epochs)

lemma training_len:
  "length (all_losses (training upd upd_lbfgs lossf choice colloc n_a n_b prms opt_st rng)) =
   (n_a + 1) + (n_b + 1)"
  by (simp add: training_def phaseA_len phaseB_len init_state_def)

lemma training_epochs:
  "all_epochs (training upd upd_lbfgs lossf choice colloc n_a n_b prms opt_st rng) =
   [0..<n_a + 1] @ map (\<lambda>e. e + n_a) [0..<n_b + 1]"
  by (simp add: training_def phaseA_epochs phaseB_epochs init_state_def del: upt_Suc)

text \<open>
  C7, as the code has it. Neither loop has an exit other than the end of its range,
  and each iteration appends one loss and one epoch index. The first loop runs over
  \<^verbatim>\<open>range(epochs+1)\<close> and the second over \<^verbatim>\<open>range(epochs_lbfgs+1)\<close>, so the run
  records \<open>(n_a + 1) + (n_b + 1)\<close> entries, epoch indices \<open>0..n_a\<close> followed by
  \<open>n_a..n_a + n_b\<close>: 20252 entries for \<open>epochs = 20000\<close>, \<open>epochs_lbfgs = 250\<close>.
\<close>

theorem training_record_length:
  "length (all_losses (training upd upd_lbfgs lossf choice colloc n_a n_b prms opt_st rng)) =
     (n_a + 1) + (n_b + 1) \<and>
   all_epochs (training upd upd_lbfgs lossf choice colloc n_a n_b prms opt_st rng) =
     [0..<n_a + 1] @ map (\<lambda>e. e + n_a) [0..<n_b + 1] \<and>
   length (all_losses
     (training upd upd_lbfgs lossf choice colloc epochs epochs_lbfgs prms opt_st rng)) = 20252"
  by (simp add: training_len training_epochs epochs_def epochs_lbfgs_def del: upt_Suc)

text \<open>
  C7, as stated: 20000 + 250 records under the reference configuration. A run with
  a constant loss and an optimizer that leaves the parameters alone already
  records two more.
\<close>

theorem training_record_length_counterexample:
  "length (all_losses
     (training (\<lambda>opt_st prms b. (opt_st, prms, Finite 0)) (\<lambda>prms b. prms)
        (\<lambda>prms b. Finite 0) (\<lambda>rng n k. (replicate k 0, rng)) [(0, 0)]
        epochs epochs_lbfgs () () ())) \<noteq> epochs + epochs_lbfgs"
  by (simp add: training_len epochs_def epochs_lbfgs_def)

subsection \<open>The best loss over the run\<close>

lemma states_after_mono:
  assumes "\<And>s e. fle (best_loss (step s e)) (best_loss s)"
  shows "\<forall>x \<in> set (states_after step s es). fle (best_loss x) (best_loss s)"
  using assms
proof (induction es arbitrary: s)
  case Nil
  then show ?case by simp
next
  case (Cons e es)
  show ?case
    using Cons.IH[OF Cons.prems, of "step s e"] Cons.prems[of s e]
    by (auto intro: fle_trans)
qed

lemma states_after_last:
  "last (s # states_after step s es) = fold (\<lambda>e s. step s e) es s"
  by (induction es arbitrary: s) simp_all

lemma nonincreasing_sorted: "nonincreasing xs = sorted_wrt (\<lambda>a b. fle b a) xs"
  unfolding nonincreasing_def sorted_wrt_iff_nth_less
  by (metis fle_refl le_eq_less_or_eq le_less_trans)

lemma states_after_sorted:
  assumes "\<And>s e. fle (best_loss (step s e)) (best_loss s)"
  shows "sorted_wrt (\<lambda>a b. fle b a) (map best_loss (s # states_after step s es))"
  using assms
proof (induction es arbitrary: s)
  case Nil
  then show ?case by simp
next
  case (Cons e es)
  have "\<forall>x \<in> set (states_after step (step s e) es). fle (best_loss x) (best_loss s)"
    using states_after_mono[of step "step s e" es, OF Cons.prems] Cons.prems[of s e]
    by (auto intro: fle_trans)
  then show ?case
    using Cons.IH[OF Cons.prems, of "step s e"] Cons.prems[of s e] by simp
qed

lemma sorted_wrt_append_last:
  assumes "sorted_wrt P (x # xs)" and "sorted_wrt P (last (x # xs) # ys)"
    and "\<And>a b c. P a b \<Longrightarrow> P b c \<Longrightarrow> P a c"
  shows "sorted_wrt P (x # xs @ ys)"
proof -
  have "\<forall>a \<in> set (x # xs). \<forall>b \<in> set ys. P a b"
  proof (intro ballI)
    fix a b
    assume a: "a \<in> set (x # xs)" and b: "b \<in> set ys"
    have lb: "P (last (x # xs)) b" using assms(2) b by simp
    show "P a b"
    proof (cases "a = last (x # xs)")
      case True
      then show ?thesis using lb by simp
    next
      case False
      obtain i where i: "i < length (x # xs)" "(x # xs) ! i = a"
        using a by (metis in_set_conv_nth)
      have "i \<noteq> length (x # xs) - 1"
        using False i by (metis last_conv_nth list.distinct(1))
      then have "i < length (x # xs) - 1" using i(1) by simp
      then have "P ((x # xs) ! i) ((x # xs) ! (length (x # xs) - 1))"
        by (intro sorted_wrt_nth_less[OF assms(1)]) simp_all
      then have "P a (last (x # xs))"
        using i(2) by (metis last_conv_nth list.distinct(1))
      then show ?thesis using lb assms(3) by blast
    qed
  qed
  moreover have "sorted_wrt P ys" using assms(2) by simp
  ultimately have "sorted_wrt P ((x # xs) @ ys)"
    using assms(1) unfolding sorted_wrt_append by blast
  then show ?thesis by simp
qed

lemma history_sorted:
  "sorted_wrt (\<lambda>a b. fle b a)
     (map best_loss
       (training_history upd upd_lbfgs lossf choice colloc n_a n_b prms opt_st rng))"
proof -
  let ?s0 = "init_state prms opt_st rng"
  let ?A = "states_after (phaseA_step upd choice colloc) ?s0 [0..<n_a + 1]"
  let ?sa = "phaseA upd choice colloc n_a ?s0"
  let ?B = "states_after (phaseB_step upd_lbfgs lossf choice colloc n_a) ?sa [0..<n_b + 1]"
  have a: "sorted_wrt (\<lambda>a b. fle b a) (map best_loss (?s0 # ?A))"
    by (rule states_after_sorted) (rule phaseA_step_best_le)
  have b: "sorted_wrt (\<lambda>a b. fle b a) (map best_loss (?sa # ?B))"
    by (rule states_after_sorted) (rule phaseB_step_best_le)
  have l: "last (map best_loss (?s0 # ?A)) = best_loss ?sa"
    unfolding phaseA_def states_after_last[symmetric] by (simp add: last_map)
  have "sorted_wrt (\<lambda>a b. fle b a) (best_loss ?s0 # map best_loss ?A @ map best_loss ?B)"
    apply (rule sorted_wrt_append_last)
    using a apply simp
    using b l apply simp
    by (rule fle_trans)
  then show ?thesis by (simp add: training_history_def Let_def)
qed

lemma history_last:
  "last (training_history upd upd_lbfgs lossf choice colloc n_a n_b prms opt_st rng) =
   training upd upd_lbfgs lossf choice colloc n_a n_b prms opt_st rng"
proof -
  let ?s0 = "init_state prms opt_st rng"
  let ?sa = "phaseA upd choice colloc n_a ?s0"
  let ?B = "states_after (phaseB_step upd_lbfgs lossf choice colloc n_a) ?sa [0..<n_b + 1]"
  have "?B \<noteq> []" by (simp del: upt_Suc add: upt_conv_Cons)
  then have "last (training_history upd upd_lbfgs lossf choice colloc n_a n_b prms opt_st rng)
      = last (?sa # ?B)"
    by (simp add: training_history_def Let_def)
  then show ?thesis
    by (simp only: states_after_last training_def phaseB_def)
qed

text \<open>
  C6. In either loop the stored triple (epoch, loss, parameters) is replaced by the
  current one exactly when the current loss is strictly below the stored best
  loss, and is left as it was otherwise. Over the history of the whole run (the
  initial state, then the state after every iteration of the first and of the
  second loop, the last of which is the state the run ends in) the stored best loss
  never increases.
\<close>

theorem best_tracker_monotone:
  "(\<forall>idx rng' o' p' cur.
      choice (np_random s) (length colloc) batch_size = (idx, rng') \<and>
      upd (opt_state s) (params s) (map (\<lambda>i. colloc ! i) idx) = (o', p', cur) \<longrightarrow>
      snapshot (phaseA_step upd choice colloc s e) =
        (if fless cur (best_loss s) then (e, cur, p') else snapshot s)) \<and>
   (\<forall>idx rng' p' cur.
      choice (np_random s) (length colloc) batch_size = (idx, rng') \<and>
      upd_lbfgs (params s) (map (\<lambda>i. colloc ! i) idx) = p' \<and>
      lossf p' (map (\<lambda>i. colloc ! i) idx) = cur \<longrightarrow>
      snapshot (phaseB_step upd_lbfgs lossf choice colloc n_a s e) =
        (if fless cur (best_loss s) then (e + n_a, cur, p') else snapshot s)) \<and>
   nonincreasing (map best_loss
     (training_history upd upd_lbfgs lossf choice colloc n_a n_b prms opt_st rng)) \<and>
   last (training_history upd upd_lbfgs lossf choice colloc n_a n_b prms opt_st rng) =
     training upd upd_lbfgs lossf choice colloc n_a n_b prms opt_st rng"
  using phaseA_step_snapshot[of choice s colloc _ _ upd]
    phaseB_step_snapshot[of choice s colloc _ _ upd_lbfgs _ lossf]
    history_sorted[of upd upd_lbfgs lossf choice colloc n_a n_b prms opt_st rng]
    history_last[of upd upd_lbfgs lossf choice colloc n_a n_b prms opt_st rng]
  unfolding nonincreasing_sorted by blast

lemma example_history:
  "map best_loss (training_history
        (\<lambda>opt_st prms b. (opt_st, Suc prms,
            if prms = 0 then Finite 3 else if prms = 1 then Finite 5 else Finite 1))
        (\<lambda>prms b. Suc prms) (\<lambda>prms b. NaN)
        (\<lambda>rng n k. (replicate k (rng mod n), Suc rng)) [(0, 0), (1/2, 1/2)]
        2 1 (0::nat) () (0::nat)) =
   [PosInf, Finite 3, Finite 3, Finite 1, Finite 1, Finite 1]"
  by (simp add: training_history_def phaseA_def phaseA_step_def phaseB_step_def
      init_state_def Let_def upt_conv_Cons numeral_2_eq_2)

theorem best_tracker_monotone_witness:
  "snapshot (phaseA_step
        (\<lambda>opt_st prms b. (opt_st, Suc prms,
            if prms = 0 then Finite 3 else if prms = 1 then Finite 5 else Finite 1))
        (\<lambda>rng n k. (replicate k (rng mod n), Suc rng)) [(0, 0), (1/2, 1/2)]
        (init_state (0::nat) () (0::nat)) 0) = (0, Finite 3, 1) \<and>
   snapshot (phaseB_step (\<lambda>prms b. Suc prms) (\<lambda>prms b. NaN)
        (\<lambda>rng n k. (replicate k (rng mod n), Suc rng)) [(0, 0), (1/2, 1/2)] 2
        (init_state (0::nat) () (0::nat)) 0) = (0, PosInf, 0) \<and>
   nonincreasing [PosInf, Finite 3, Finite 3, Finite 1, Finite 1, Finite 1]"
  using best_tracker_monotone [where
      upd = "\<lambda>opt_st prms b. (opt_st, Suc prms,
            if prms = 0 then Finite 3 else if prms = 1 then Finite 5 else Finite 1)"
      and upd_lbfgs = "\<lambda>prms b. Suc prms" and lossf = "\<lambda>prms b. NaN"
      and choice = "\<lambda>rng n k. (replicate k (rng mod n), Suc rng)"
      and colloc = "[(0, 0), (1/2, 1/2)]" and n_a = 2 and n_b = 1
      and prms = "0::nat" and opt_st = "()" and rng = "0::nat"
      and s = "init_state (0::nat) () (0::nat)" and e = 0]
  unfolding example_history
  by (simp add: init_state_def snapshot_def)

subsection \<open>Batch sampling and the generator state\<close>

text \<open>
  C8. The batches of both loops come from NumPy's global generator, which the
  program never seeds; only the JAX keys are fixed. With everything the program
  fixes held equal (parameters, optimizer, epoch counts, collocation points), two
  generator states give different loss records. The generator here is a counter
  that returns its state modulo \<open>n\<close>; the loss reported is the first coordinate of
  the first batch point.
\<close>

theorem unseeded_batches_diverge:
  "all_losses (training (\<lambda>opt_st prms b. (opt_st, prms, Finite (fst (hd b)))) (\<lambda>prms b. prms)
       (\<lambda>prms b. Finite (fst (hd b))) (\<lambda>rng n k. (replicate k (rng mod n), Suc rng))
       [(0, 0), (1, 0)] 0 0 () () (0::nat)) = [Finite 0, Finite 1] \<and>
   all_losses (training (\<lambda>opt_st prms b. (opt_st, prms, Finite (fst (hd b)))) (\<lambda>prms b. prms)
       (\<lambda>prms b. Finite (fst (hd b))) (\<lambda>rng n k. (replicate k (rng mod n), Suc rng))
       [(0, 0), (1, 0)] 0 0 () () (1::nat)) = [Finite 1, Finite 0]"
  by (simp add: training_def phaseA_def phaseB_def phaseA_step_def phaseB_step_def
      init_state_def batch_size_def Let_def)

end
